theory Spec2Isabelle
  imports Main "HOL-Library.Sublist"
begin

section \<open>Data model (src/main.go, lines 16-29)\<close>

text \<open>
  Go strings are byte sequences; a \<^typ>\<open>string\<close> is a list of bytes. The empty string is the
  zero value of every field that a composite literal leaves out.
\<close>

record Session =
  Name :: string
  Path :: string
  Type :: string
  Tmuxinator :: string

text \<open>\<open>Type *string\<close> is a pointer: \<open>None\<close> is the nil pointer (key absent in the file).\<close>

record ConfigSession =
  cType :: "string option"
  cPath :: string
  cTmuxinator :: string

definition configPath :: string where
  "configPath = ''.config/mingle/mingle.yaml''"

section \<open>Errors, outcomes and the trace of observable actions\<close>

text \<open>A Go \<open>error\<close> value is represented by its message (the result of \<open>Error()\<close>).\<close>

datatype error = Error string

fun errorMessage :: "error \<Rightarrow> string" where
  "errorMessage (Error m) = m"

text \<open>
  A function that returns \<open>(T, error)\<close> and may panic on the way: \<open>Ok\<close> is a nil error,
  \<open>Err\<close> a returned error, \<open>Panic\<close> an unwinding panic (only \<open>getConfigPath\<close> raises one).
\<close>

datatype 'a result = Ok 'a | Err error | Panic error

text \<open>The result of running a child process: it could not run or exited non-zero, or its stdout.\<close>

datatype cmd_result = CmdErr error | CmdOut string

text \<open>
  What the process does to the outside, in the order in which it happens: a child process
  run to completion with the given argument vector (\<open>exec.Command(...).Run()\<close> or \<open>.Output()\<close>),
  a write to standard output or standard error by the program itself, and the call of
  \<open>syscall.Exec\<close> with path, argument vector and environment.
\<close>

datatype event =
    Run "string list"
  | Stdout string
  | Stderr string
  | SysExec string "string list" "string list"

text \<open>
  Everything the program reads from outside is a field of the world it runs in. Library
  functions whose code is not part of the repository (\<open>filepath.Join\<close>, \<open>yaml.Unmarshal\<close>,
  the file system, the environment, \<open>exec.LookPath\<close>) are fields as well. The answer of a
  child process may depend on everything that happened before it (\<open>respond\<close> takes the
  trace so far), so two runs of the same command may differ. \<open>sysExec\<close> returns \<open>None\<close>
  when the process image has been replaced and the error otherwise.
\<close>

record world =
  userHomeDir :: "error + string"
  filepathJoin :: "string \<Rightarrow> string \<Rightarrow> string"
  statIsNotExist :: "string \<Rightarrow> bool"
  readFile :: "string \<Rightarrow> error + string"
  yamlUnmarshal :: "string \<Rightarrow> error + ConfigSession list"
  userCurrent :: "error + string"
  getenv :: "string \<Rightarrow> string"
  environ :: "string list"
  lookPath :: "string \<Rightarrow> error + string"
  respond :: "event list \<Rightarrow> string list \<Rightarrow> cmd_result"
  sysExec :: "string \<Rightarrow> string list \<Rightarrow> string list \<Rightarrow> error option"

text \<open>How a command ends: the handler returns, \<open>os.Exit\<close> is called, the process image is
  replaced, or a panic unwinds.\<close>

datatype outcome = Returned "error option" | Exited nat | Replaced | Panicked error

section \<open>The functions of package \<open>strings\<close> that the program calls\<close>

definition newline :: char where
  "newline = CHR 0x0A"

text \<open>\<open>strings.Split(s, sep)\<close> for a separator of one byte; \<open>Split("", sep)\<close> is \<open>[""]\<close>.\<close>

fun Split :: "string \<Rightarrow> char \<Rightarrow> string list" where
  "Split [] sep = [[]]"
| "Split (c # cs) sep =
     (if c = sep then [] # Split cs sep
      else (case Split cs sep of [] \<Rightarrow> [[c]] | l # ls \<Rightarrow> (c # l) # ls))"

text \<open>
  \<open>strings.TrimSpace\<close> removes the leading and trailing runes for which \<open>unicode.IsSpace\<close>
  holds. These are their UTF-8 encodings: U+0009 to U+000D, U+0020, U+0085, U+00A0, U+1680,
  U+2000 to U+200A, U+2028, U+2029, U+202F, U+205F, U+3000.
\<close>

definition spaceRunes :: "string list" where
  "spaceRunes =
    [[CHR 0x09], [CHR 0x0A], [CHR 0x0B], [CHR 0x0C], [CHR 0x0D], [CHR 0x20],
     [CHR 0xC2, CHR 0x85], [CHR 0xC2, CHR 0xA0],
     [CHR 0xE1, CHR 0x9A, CHR 0x80],
     [CHR 0xE2, CHR 0x80, CHR 0x80], [CHR 0xE2, CHR 0x80, CHR 0x81],
     [CHR 0xE2, CHR 0x80, CHR 0x82], [CHR 0xE2, CHR 0x80, CHR 0x83],
     [CHR 0xE2, CHR 0x80, CHR 0x84], [CHR 0xE2, CHR 0x80, CHR 0x85],
     [CHR 0xE2, CHR 0x80, CHR 0x86], [CHR 0xE2, CHR 0x80, CHR 0x87],
     [CHR 0xE2, CHR 0x80, CHR 0x88], [CHR 0xE2, CHR 0x80, CHR 0x89],
     [CHR 0xE2, CHR 0x80, CHR 0x8A],
     [CHR 0xE2, CHR 0x80, CHR 0xA8], [CHR 0xE2, CHR 0x80, CHR 0xA9],
     [CHR 0xE2, CHR 0x80, CHR 0xAF],
     [CHR 0xE2, CHR 0x81, CHR 0x9F],
     [CHR 0xE3, CHR 0x80, CHR 0x80]]"

text \<open>Remove the first of the given byte sequences that the string starts with.\<close>

fun stripRune :: "string list \<Rightarrow> string \<Rightarrow> string option" where
  "stripRune [] s = None"
| "stripRune (p # ps) s =
     (if prefix p s then Some (drop (length p) s) else stripRune ps s)"

function trimLeft :: "string list \<Rightarrow> string \<Rightarrow> string" where
  "trimLeft ps s =
     (if [] \<in> set ps then s
      else (case stripRune ps s of None \<Rightarrow> s | Some s' \<Rightarrow> trimLeft ps s'))"
  by pat_completeness auto
termination
proof (relation "measure (\<lambda>(ps, s). length s)")
  show "wf (measure (\<lambda>(ps, s). length s))"
    by simp
next
  fix ps :: "string list" and s s' :: string
  assume nonempty: "[] \<notin> set ps" and stripped: "stripRune ps s = Some s'"
  have "stripRune qs s = Some s' \<Longrightarrow> [] \<notin> set qs \<Longrightarrow> length s' < length s" for qs
    by (induction qs) (auto split: if_splits simp: prefix_def)
  with nonempty stripped have "length s' < length s"
    by blast
  then show "((ps, s'), (ps, s)) \<in> measure (\<lambda>(ps, s). length s)"
    by simp
qed

text \<open>The last rune of a string is a space exactly if the string ends with one of the
  encodings, so trimming on the right is trimming the reversed string on the left.\<close>

definition TrimSpace :: "string \<Rightarrow> string" where
  "TrimSpace s = rev (trimLeft (map rev spaceRunes) (rev (trimLeft spaceRunes s)))"

definition HasPrefix :: "string \<Rightarrow> string \<Rightarrow> bool" where
  "HasPrefix s p = prefix p s"

definition TrimPrefix :: "string \<Rightarrow> string \<Rightarrow> string" where
  "TrimPrefix s p = (if HasPrefix s p then drop (length p) s else s)"

text \<open>\<open>strings.ReplaceAll(s, old, new)\<close> where \<open>old\<close> and \<open>new\<close> are strings of one byte.\<close>

definition ReplaceAll :: "string \<Rightarrow> char \<Rightarrow> char \<Rightarrow> string" where
  "ReplaceAll s old new = map (\<lambda>c. if c = old then new else c) s"

section \<open>Running child processes\<close>

text \<open>\<open>exec.Command(argv...).Output()\<close>: the child runs to completion, its stdout is captured.\<close>

definition Output :: "world \<Rightarrow> string list \<Rightarrow> event list \<Rightarrow> cmd_result \<times> event list" where
  "Output w argv tr = (respond w tr argv, tr @ [Run argv])"

text \<open>\<open>exec.Command(argv...).Run()\<close>: the child runs to completion, only the error is kept.\<close>

definition RunCmd :: "world \<Rightarrow> string list \<Rightarrow> event list \<Rightarrow> error option \<times> event list" where
  "RunCmd w argv tr =
     (case respond w tr argv of CmdErr e \<Rightarrow> (Some e, tr @ [Run argv])
      | CmdOut out \<Rightarrow> (None, tr @ [Run argv]))"

definition Println :: "string \<Rightarrow> event list \<Rightarrow> event list" where
  "Println s tr = tr @ [Stdout (s @ [newline])]"

section \<open>Config loader (lines 31-66, 300-309)\<close>

text \<open>\<open>Inl\<close> is the panic of line 34.\<close>

definition getConfigPath :: "world \<Rightarrow> error + string" where
  "getConfigPath w =
     (case userHomeDir w of Inl e \<Rightarrow> Inl e
      | Inr homeDir \<Rightarrow> Inr (filepathJoin w homeDir configPath))"

definition expandHomePath :: "world \<Rightarrow> string \<Rightarrow> error + string" where
  "expandHomePath w path =
     (if HasPrefix path ''~'' then
        (case userCurrent w of Inl e \<Rightarrow> Inl e
         | Inr homeDir \<Rightarrow> Inr (filepathJoin w homeDir (drop 1 path)))
      else Inr path)"

text \<open>The loop of lines 57-63: the first failing expansion ends it.\<close>

fun expandPaths :: "world \<Rightarrow> ConfigSession list \<Rightarrow> error + ConfigSession list" where
  "expandPaths w [] = Inr []"
| "expandPaths w (c # cs) =
     (case expandHomePath w (cPath c) of Inl e \<Rightarrow> Inl e
      | Inr expandedPath \<Rightarrow>
          (case expandPaths w cs of Inl e \<Rightarrow> Inl e
           | Inr cs' \<Rightarrow> Inr (c\<lparr>cPath := expandedPath\<rparr> # cs')))"

definition loadConfig :: "world \<Rightarrow> event list \<Rightarrow> ConfigSession list result \<times> event list" where
  "loadConfig w tr =
     (case getConfigPath w of Inl e \<Rightarrow> (Panic e, tr)
      | Inr filePath \<Rightarrow>
          if statIsNotExist w filePath then (Ok [], Println ''No config file was found'' tr)
          else (case readFile w filePath of Inl e \<Rightarrow> (Err e, tr)
                | Inr data \<Rightarrow>
                    (case yamlUnmarshal w data of Inl e \<Rightarrow> (Err e, tr)
                     | Inr config \<Rightarrow>
                         (case expandPaths w config of Inl e \<Rightarrow> (Err e, tr)
                          | Inr config' \<Rightarrow> (Ok config', tr)))))"

section \<open>Source adapters (lines 125-177)\<close>

text \<open>The argument vectors of the three listing commands (lines 126, 144 and 162).\<close>

definition tmuxList :: "string list" where
  "tmuxList = [''tmux'', ''list-sessions'', ''-F'', ''#{session_name}'']"

definition zoxideList :: "string list" where
  "zoxideList = [''zoxide'', ''query'', ''-l'']"

definition gitList :: "string \<Rightarrow> string list" where
  "gitList worktreeRoot = [''git'', ''-C'', worktreeRoot, ''worktree'', ''list'', ''--porcelain'']"

text \<open>The loop shared by the two line-oriented listers: split at newlines, trim each line,
  keep the lines that are not empty after trimming.\<close>

definition trimmedLines :: "string \<Rightarrow> string list" where
  "trimmedLines output = filter (\<lambda>trimmed. trimmed \<noteq> []) (map TrimSpace (Split output newline))"

definition getTmuxSessions :: "world \<Rightarrow> event list \<Rightarrow> Session list \<times> event list" where
  "getTmuxSessions w tr =
     (case Output w tmuxList tr of
        (CmdErr e, tr') \<Rightarrow> ([], tr')
      | (CmdOut output, tr') \<Rightarrow>
          (map (\<lambda>trimmed. \<lparr>Name = trimmed, Path = [], Type = [], Tmuxinator = []\<rparr>)
             (trimmedLines output), tr'))"

definition getZoxideResults :: "world \<Rightarrow> event list \<Rightarrow> Session list \<times> event list" where
  "getZoxideResults w tr =
     (case Output w zoxideList tr of
        (CmdErr e, tr') \<Rightarrow> ([], tr')
      | (CmdOut output, tr') \<Rightarrow>
          (map (\<lambda>trimmed. \<lparr>Name = trimmed, Path = trimmed, Type = [], Tmuxinator = []\<rparr>)
             (trimmedLines output), tr'))"

definition getGitWorktrees :: "world \<Rightarrow> string \<Rightarrow> event list \<Rightarrow> string list \<times> event list" where
  "getGitWorktrees w worktreeRoot tr =
     (case Output w (gitList worktreeRoot) tr of
        (CmdErr e, tr') \<Rightarrow> ([], tr')
      | (CmdOut output, tr') \<Rightarrow>
          (map (\<lambda>line. TrimSpace (TrimPrefix line ''worktree ''))
             (filter (\<lambda>line. HasPrefix line ''worktree '') (Split output newline)), tr'))"

section \<open>Session aggregator (lines 68-123)\<close>

text \<open>The loop of lines 79-95 over the config entries; the accumulator holds
  \<open>configSessions\<close> and \<open>configWorktreeSessions\<close>.\<close>

fun configLoop ::
  "world \<Rightarrow> ConfigSession list \<Rightarrow> Session list \<times> Session list \<Rightarrow> event list
     \<Rightarrow> (Session list \<times> Session list) \<times> event list" where
  "configLoop w [] acc tr = (acc, tr)"
| "configLoop w (c # cs) (configSessions, configWorktreeSessions) tr =
     (if cType c = Some ''worktreeroot'' then
        (case getGitWorktrees w (cPath c) tr of
           (worktrees, tr') \<Rightarrow>
             configLoop w cs
               (configSessions,
                configWorktreeSessions @
                  map (\<lambda>wt. \<lparr>Name = wt, Path = wt, Type = ''worktreeroot'',
                             Tmuxinator = cTmuxinator c\<rparr>) worktrees)
               tr')
      else
        configLoop w cs
          (configSessions @
             [\<lparr>Name = cPath c, Path = cPath c, Type = [], Tmuxinator = cTmuxinator c\<rparr>],
           configWorktreeSessions)
          tr)"

text \<open>The closure of lines 100-107 on its captured variables \<open>sessions\<close> and
  \<open>sessionNames\<close> (a map used as a set).\<close>

definition addSession :: "Session \<Rightarrow> Session list \<times> string set \<Rightarrow> Session list \<times> string set" where
  "addSession s st =
     (case st of (sessions, sessionNames) \<Rightarrow>
        let name = ReplaceAll (Name s) (CHR ''.'') (CHR ''_'') in
        if name \<notin> sessionNames
        then (sessions @ [s\<lparr>Name := name\<rparr>], insert name sessionNames)
        else (sessions, sessionNames))"

text \<open>\<open>for _, s := range xs { addSession(s) }\<close>\<close>

definition addSessions :: "Session list \<Rightarrow> Session list \<times> string set \<Rightarrow> Session list \<times> string set" where
  "addSessions xs st = foldl (\<lambda>st s. addSession s st) st xs"

text \<open>Lines 97-122: the four loops, in the order of the source.\<close>

definition mergeSessions ::
  "Session list \<Rightarrow> Session list \<Rightarrow> Session list \<Rightarrow> Session list \<Rightarrow> Session list" where
  "mergeSessions tmuxSessions configSessions configWorktreeSessions zoxideSessions =
     fst (addSessions zoxideSessions
           (addSessions configWorktreeSessions
             (addSessions configSessions
               (addSessions tmuxSessions ([], {})))))"

definition getSessions :: "world \<Rightarrow> event list \<Rightarrow> Session list result \<times> event list" where
  "getSessions w tr =
     (case loadConfig w tr of
        (Panic e, tr1) \<Rightarrow> (Panic e, tr1)
      | (Err e, tr1) \<Rightarrow> (Err e, tr1)
      | (Ok config, tr1) \<Rightarrow>
          (case getTmuxSessions w tr1 of
             (tmuxSessions, tr2) \<Rightarrow>
               (case getZoxideResults w tr2 of
                  (zoxideSessions, tr3) \<Rightarrow>
                    (case configLoop w config ([], []) tr3 of
                       ((configSessions, configWorktreeSessions), tr4) \<Rightarrow>
                         (Ok (mergeSessions tmuxSessions configSessions
                                configWorktreeSessions zoxideSessions), tr4)))))"

section \<open>Session creation and client switch (lines 179-207)\<close>

definition switchToTmuxSession :: "world \<Rightarrow> string \<Rightarrow> event list \<Rightarrow> error option \<times> event list" where
  "switchToTmuxSession w sessionName tr =
     (case RunCmd w [''tmux'', ''switch-client'', ''-t'', sessionName] tr of
        (Some e, tr') \<Rightarrow>
          (Some (Error (''error switching to tmux session: '' @ errorMessage e)), tr')
      | (None, tr') \<Rightarrow> (None, tr'))"

definition tmuxinatorScript :: "Session \<Rightarrow> string" where
  "tmuxinatorScript session =
     ''cd '' @ Path session @ '' && yes | tmuxinator start -n '' @ Name session @
     '' -p '' @ Tmuxinator session @ '' --no-attach''"

definition createTmuxSession :: "world \<Rightarrow> Session \<Rightarrow> event list \<Rightarrow> error option \<times> event list" where
  "createTmuxSession w session tr =
     (if Path session = [] then
        (Some (Error ''session path is missing, cannot create session''), tr)
      else if Tmuxinator session \<noteq> [] then
        (case RunCmd w [''sh'', ''-c'', tmuxinatorScript session] tr of
           (Some e, tr') \<Rightarrow>
             (Some (Error (''error starting tmuxinator session: '' @ errorMessage e)), tr')
         | (None, tr') \<Rightarrow> (None, tr'))
      else
        (case RunCmd w [''tmux'', ''new-session'', ''-s'', Name session, ''-d'', ''-c'',
                        Path session] tr of
           (Some e, tr') \<Rightarrow>
             (Some (Error (''error creating new tmux session: '' @ errorMessage e)), tr')
         | (None, tr') \<Rightarrow> (None, tr')))"

section \<open>Commands (lines 209-328)\<close>

definition isInsideTmuxSession :: "world \<Rightarrow> bool" where
  "isInsideTmuxSession w = (getenv w ''TMUX'' \<noteq> [])"

text \<open>A \<open>cobra.Command\<close> literal with the fields that the program sets.\<close>

record command =
  Use :: string
  Short :: string
  Args :: "string list \<Rightarrow> error option"
  RunE :: "world \<Rightarrow> string list \<Rightarrow> event list \<Rightarrow> outcome \<times> event list"

fun showNat :: "nat \<Rightarrow> string" where
  "showNat n =
     (if n < 10 then [char_of (48 + n)] else showNat (n div 10) @ [char_of (48 + n mod 10)])"

text \<open>\<open>cobra.MaximumNArgs(n)\<close>, and the validation of a command without \<open>Args\<close> and
  without subcommands, which accepts every argument list.\<close>

definition MaximumNArgs :: "nat \<Rightarrow> string list \<Rightarrow> error option" where
  "MaximumNArgs n args =
     (if n < length args then
        Some (Error (''accepts at most '' @ showNat n @ '' arg(s), received '' @
                     showNat (length args)))
      else None)"

definition ArbitraryArgs :: "string list \<Rightarrow> error option" where
  "ArbitraryArgs args = None"

definition listRunE :: "world \<Rightarrow> string list \<Rightarrow> event list \<Rightarrow> outcome \<times> event list" where
  "listRunE w args tr =
     (case getSessions w tr of
        (Panic e, tr1) \<Rightarrow> (Panicked e, tr1)
      | (Err e, tr1) \<Rightarrow> (Returned (Some e), tr1)
      | (Ok sessions, tr1) \<Rightarrow>
          (Returned None, foldl (\<lambda>tr' session. Println (Name session) tr') tr1 sessions))"

definition listSessionsCmd :: command where
  "listSessionsCmd =
     \<lparr>Use = ''list'', Short = ''List all available sessions'',
      Args = ArbitraryArgs, RunE = listRunE\<rparr>"

text \<open>Lines 279-292: look the multiplexer up and replace the process image.\<close>

definition attachSession :: "world \<Rightarrow> string \<Rightarrow> event list \<Rightarrow> outcome \<times> event list" where
  "attachSession w sessionName tr =
     (case lookPath w ''tmux'' of
        Inl e \<Rightarrow> (Exited 1, tr @ [Stderr (''Error finding tmux: '' @ errorMessage e @ [newline])])
      | Inr tmuxPath \<Rightarrow>
          let args = [''tmux'', ''attach-session'', ''-t'', sessionName];
              env = environ w
          in (case sysExec w tmuxPath args env of
                Some e \<Rightarrow>
                  (Exited 1,
                   tr @ [SysExec tmuxPath args env,
                         Stderr (''Error executing tmux: '' @ errorMessage e @ [newline])])
              | None \<Rightarrow> (Replaced, tr @ [SysExec tmuxPath args env])))"

definition connectRunE :: "world \<Rightarrow> string list \<Rightarrow> event list \<Rightarrow> outcome \<times> event list" where
  "connectRunE w args tr =
     (case args of
        [] \<Rightarrow> (Returned None, tr)
      | sessionName # _ \<Rightarrow>
          (case getSessions w tr of
             (Panic e, tr1) \<Rightarrow> (Panicked e, tr1)
           | (Err e, tr1) \<Rightarrow> (Returned (Some e), tr1)
           | (Ok sessions, tr1) \<Rightarrow>
               (case find (\<lambda>s. Name s = sessionName) sessions of
                  None \<Rightarrow>
                    (Returned (Some (Error (''session '' @ sessionName @ '' not found''))), tr1)
                | Some selectedSession \<Rightarrow>
                    (case getTmuxSessions w tr1 of
                       (tmuxSessions, tr2) \<Rightarrow>
                         let sessionExists =
                               list_ex (\<lambda>s. Name s = Name selectedSession) tmuxSessions
                         in
                         if isInsideTmuxSession w then
                           (if \<not> sessionExists then
                              (case createTmuxSession w selectedSession tr2 of
                                 (Some e, tr3) \<Rightarrow> (Returned (Some e), tr3)
                               | (None, tr3) \<Rightarrow>
                                   (case switchToTmuxSession w (Name selectedSession) tr3 of
                                      (r, tr4) \<Rightarrow> (Returned r, tr4)))
                            else
                              (case switchToTmuxSession w (Name selectedSession) tr2 of
                                 (r, tr4) \<Rightarrow> (Returned r, tr4)))
                         else
                           (if \<not> sessionExists then
                              (case createTmuxSession w selectedSession tr2 of
                                 (Some e, tr3) \<Rightarrow> (Returned (Some e), tr3)
                               | (None, tr3) \<Rightarrow> attachSession w sessionName tr3)
                            else attachSession w sessionName tr2)))))"

definition connectSessionCmd :: command where
  "connectSessionCmd =
     \<lparr>Use = ''connect <session>'', Short = ''Connect to a given session'',
      Args = MaximumNArgs 1, RunE = connectRunE\<rparr>"

text \<open>
  \<open>main\<close> for a command line on which cobra selects the subcommand \<open>c\<close> with the positional
  arguments \<open>args\<close> (no flags): cobra validates the arguments with \<open>Args\<close> and calls \<open>RunE\<close>;
  \<open>Execute\<close> returns the error of either, which \<open>main\<close> prints before it exits with status 1.
  What cobra itself writes is not part of the trace.
\<close>

definition Execute :: "command \<Rightarrow> world \<Rightarrow> string list \<Rightarrow> event list \<Rightarrow> outcome \<times> event list" where
  "Execute c w args tr =
     (case Args c args of Some e \<Rightarrow> (Returned (Some e), tr) | None \<Rightarrow> RunE c w args tr)"

definition main :: "command \<Rightarrow> world \<Rightarrow> string list \<Rightarrow> event list \<Rightarrow> outcome \<times> event list" where
  "main c w args tr =
     (case Execute c w args tr of
        (Returned (Some err), tr') \<Rightarrow> (Exited 1, Println (errorMessage err) tr')
      | (Returned None, tr') \<Rightarrow> (Exited 0, tr')
      | (out, tr') \<Rightarrow> (out, tr'))"

section \<open>The aggregation as the specification words it\<close>

text \<open>Step 4 of the specified algorithm: every \<open>.\<close> of the name becomes \<open>_\<close>, nothing else
  changes.\<close>

definition spec_normalize :: "Session \<Rightarrow> Session" where
  "spec_normalize s = s\<lparr>Name := map (\<lambda>c. if c = CHR ''.'' then CHR ''_'' else c) (Name s)\<rparr>"

text \<open>Step 5: keep the first session of every name and drop the later ones.\<close>

fun spec_dedupe :: "Session list \<Rightarrow> Session list" where
  "spec_dedupe [] = []"
| "spec_dedupe (s # ss) = s # spec_dedupe (filter (\<lambda>t. Name t \<noteq> Name s) ss)"

text \<open>Steps 3 to 6 together.\<close>

definition spec_catalog ::
  "Session list \<Rightarrow> Session list \<Rightarrow> Session list \<Rightarrow> Session list \<Rightarrow> Session list" where
  "spec_catalog live flat worktree frequency =
     spec_dedupe (map spec_normalize (live @ flat @ worktree @ frequency))"

section \<open>Kinds of events\<close>

text \<open>The commands that change the multiplexer or hand the terminal over: session creation
  (lines 193 and 200), client switch (line 180) and attach (line 289).\<close>

definition isCreation :: "event \<Rightarrow> bool" where
  "isCreation e =
     (case e of
        Run argv \<Rightarrow> take 2 argv = [''tmux'', ''new-session''] \<or> take 2 argv = [''sh'', ''-c'']
      | _ \<Rightarrow> False)"

definition isMutating :: "event \<Rightarrow> bool" where
  "isMutating e =
     (case e of
        Run argv \<Rightarrow> isCreation e \<or> take 2 argv = [''tmux'', ''switch-client'']
      | SysExec path argv env \<Rightarrow> True
      | _ \<Rightarrow> False)"

text \<open>An external command of any kind, and a message written by the program itself.\<close>

definition isCommand :: "event \<Rightarrow> bool" where
  "isCommand e = (case e of Run argv \<Rightarrow> True | SysExec path argv env \<Rightarrow> True | _ \<Rightarrow> False)"

definition isMessage :: "event \<Rightarrow> bool" where
  "isMessage e = (case e of Stdout s \<Rightarrow> True | Stderr s \<Rightarrow> True | _ \<Rightarrow> False)"

section \<open>A sample world\<close>

text \<open>
  One user with a config file of three entries, a multiplexer with the sessions \<open>main\<close> and
  \<open>a.b\<close>, a frequency index and a repository with two worktrees. The process runs outside
  the multiplexer. The variants below break one tool each.
\<close>

definition sampleConfig :: "ConfigSession list" where
  "sampleConfig =
     [\<lparr>cType = None, cPath = ''~/a.b'', cTmuxinator = ''dev''\<rparr>,
      \<lparr>cType = None, cPath = ''a_b'', cTmuxinator = []\<rparr>,
      \<lparr>cType = Some ''worktreeroot'', cPath = ''/repo'', cTmuxinator = []\<rparr>]"

definition sampleRespond :: "event list \<Rightarrow> string list \<Rightarrow> cmd_result" where
  "sampleRespond tr argv =
     (if argv = tmuxList then CmdOut (''main'' @ [newline] @ '' a.b '' @ [newline])
      else if argv = zoxideList then CmdOut (''/repo/wt'' @ [newline] @ ''a.b.c'' @ [newline])
      else if take 1 argv = [''git''] then
        CmdOut (''worktree /repo'' @ [newline] @ ''HEAD 0a1b'' @ [newline] @ [newline] @
                ''worktree /repo/wt'' @ [newline])
      else CmdOut [])"

text \<open>The sample user's world with the given answers of the tools and the given
  environment variables.\<close>

definition sampleWorldWith ::
  "(event list \<Rightarrow> string list \<Rightarrow> cmd_result) \<Rightarrow> (string \<Rightarrow> string) \<Rightarrow> world" where
  "sampleWorldWith answers variables =
     \<lparr>userHomeDir = Inr ''/home/u'',
      filepathJoin = (\<lambda>a b. if take 1 b = ''/'' then a @ b else a @ ''/'' @ b),
      statIsNotExist = (\<lambda>p. False),
      readFile = (\<lambda>p. Inr ''- path: ~/a.b''),
      yamlUnmarshal = (\<lambda>d. Inr sampleConfig),
      userCurrent = Inr ''/home/u'',
      getenv = variables,
      environ = [''HOME=/home/u''],
      lookPath = (\<lambda>f. Inr ''/usr/bin/tmux''),
      respond = answers,
      sysExec = (\<lambda>p a e. None)\<rparr>"

definition sampleWorld :: world where
  "sampleWorld = sampleWorldWith sampleRespond (\<lambda>v. [])"

text \<open>Every tool fails.\<close>

definition brokenWorld :: world where
  "brokenWorld = sampleWorldWith (\<lambda>tr argv. CmdErr (Error ''exit status 1'')) (\<lambda>v. [])"

text \<open>Every tool fails, and the config file is an empty list.\<close>

definition silentWorld :: world where
  "silentWorld = brokenWorld\<lparr>yamlUnmarshal := (\<lambda>d. Inr [])\<rparr>"

text \<open>The listing tools work, every other command fails.\<close>

definition createFailsWorld :: world where
  "createFailsWorld =
     sampleWorldWith
       (\<lambda>tr argv.
          if argv = tmuxList \<or> argv = zoxideList \<or> take 1 argv = [''git'']
          then sampleRespond tr argv else CmdErr (Error ''exit status 1''))
       (\<lambda>v. [])"

text \<open>The same user inside a multiplexer client.\<close>

definition insideWorld :: world where
  "insideWorld =
     sampleWorldWith sampleRespond (\<lambda>v. if v = ''TMUX'' then ''/tmp/tmux-0/default,1,0'' else [])"

text \<open>The sample world without a working frequency index.\<close>

definition noIndexWorld :: world where
  "noIndexWorld =
     sampleWorldWith
       (\<lambda>tr argv. if argv = zoxideList then CmdErr (Error ''exit status 1'')
                  else sampleRespond tr argv)
       (\<lambda>v. [])"

text \<open>A world in which the multiplexer and the first of two worktree roots fail.\<close>

definition patchyConfig :: "ConfigSession list" where
  "patchyConfig =
     [\<lparr>cType = Some ''worktreeroot'', cPath = ''/r1'', cTmuxinator = []\<rparr>,
      \<lparr>cType = None, cPath = ''/f'', cTmuxinator = []\<rparr>,
      \<lparr>cType = Some ''worktreeroot'', cPath = ''/r2'', cTmuxinator = []\<rparr>]"

definition patchyRespond :: "event list \<Rightarrow> string list \<Rightarrow> cmd_result" where
  "patchyRespond tr argv =
     (if argv = zoxideList then CmdOut (''/z'' @ [newline])
      else if argv = gitList ''/r2'' then CmdOut (''worktree /r2'' @ [newline])
      else CmdErr (Error ''exit status 1''))"

definition patchyWorld :: world where
  "patchyWorld =
     (sampleWorldWith patchyRespond (\<lambda>v. []))\<lparr>yamlUnmarshal := (\<lambda>d. Inr patchyConfig)\<rparr>"

definition sampleExpanded :: "ConfigSession list" where
  "sampleExpanded =
     [\<lparr>cType = None, cPath = ''/home/u/a.b'', cTmuxinator = ''dev''\<rparr>,
      \<lparr>cType = None, cPath = ''a_b'', cTmuxinator = []\<rparr>,
      \<lparr>cType = Some ''worktreeroot'', cPath = ''/repo'', cTmuxinator = []\<rparr>]"

definition sampleLive :: "Session list" where
  "sampleLive =
     [\<lparr>Name = ''main'', Path = [], Type = [], Tmuxinator = []\<rparr>,
      \<lparr>Name = ''a.b'', Path = [], Type = [], Tmuxinator = []\<rparr>]"

definition sampleFrequent :: "Session list" where
  "sampleFrequent =
     [\<lparr>Name = ''/repo/wt'', Path = ''/repo/wt'', Type = [], Tmuxinator = []\<rparr>,
      \<lparr>Name = ''a.b.c'', Path = ''a.b.c'', Type = [], Tmuxinator = []\<rparr>]"

definition sampleFlat :: "Session list" where
  "sampleFlat =
     [\<lparr>Name = ''/home/u/a.b'', Path = ''/home/u/a.b'', Type = [], Tmuxinator = ''dev''\<rparr>,
      \<lparr>Name = ''a_b'', Path = ''a_b'', Type = [], Tmuxinator = []\<rparr>]"

definition sampleWorktrees :: "Session list" where
  "sampleWorktrees =
     [\<lparr>Name = ''/repo'', Path = ''/repo'', Type = ''worktreeroot'', Tmuxinator = []\<rparr>,
      \<lparr>Name = ''/repo/wt'', Path = ''/repo/wt'', Type = ''worktreeroot'', Tmuxinator = []\<rparr>]"

definition sampleCatalog :: "Session list" where
  "sampleCatalog =
     [\<lparr>Name = ''main'', Path = [], Type = [], Tmuxinator = []\<rparr>,
      \<lparr>Name = ''a_b'', Path = [], Type = [], Tmuxinator = []\<rparr>,
      \<lparr>Name = ''/home/u/a_b'', Path = ''/home/u/a.b'', Type = [], Tmuxinator = ''dev''\<rparr>,
      \<lparr>Name = ''/repo'', Path = ''/repo'', Type = ''worktreeroot'', Tmuxinator = []\<rparr>,
      \<lparr>Name = ''/repo/wt'', Path = ''/repo/wt'', Type = ''worktreeroot'', Tmuxinator = []\<rparr>,
      \<lparr>Name = ''a_b_c'', Path = ''a.b.c'', Type = [], Tmuxinator = []\<rparr>]"

definition sampleQueries :: "event list" where
  "sampleQueries =
     [Run tmuxList, Run zoxideList,
      Run [''git'', ''-C'', ''/repo'', ''worktree'', ''list'', ''--porcelain'']]"

section \<open>The worktree group as one expression\<close>

text \<open>What the loop of lines 79-95 appends to \<open>configWorktreeSessions\<close> for the given
  worktree roots, the first \<open>git\<close> command running after the trace \<open>t\<close>. Used in proofs only.\<close>

fun worktreeGroup :: "world \<Rightarrow> ConfigSession list \<Rightarrow> event list \<Rightarrow> Session list" where
  "worktreeGroup w [] t = []"
| "worktreeGroup w (r # rs) t =
     map (\<lambda>p. \<lparr>Name = p, Path = p, Type = ''worktreeroot'', Tmuxinator = cTmuxinator r\<rparr>)
       (fst (getGitWorktrees w (cPath r) t)) @
     worktreeGroup w rs (t @ [Run (gitList (cPath r))])"

section \<open>The aggregator refines the specified algorithm\<close>

lemma spec_dedupe_snoc:
  "spec_dedupe (ys @ [y]) =
     (if Name y \<in> Name ` set ys then spec_dedupe ys else spec_dedupe ys @ [y])"
proof (induction ys rule: spec_dedupe.induct)
  case 1
  show ?case by simp
next
  case (2 a ys)
  show ?case
  proof (cases "Name y = Name a")
    case True
    then show ?thesis by simp
  next
    case False
    then have "Name y \<in> Name ` set (filter (\<lambda>t. Name t \<noteq> Name a) ys) \<longleftrightarrow> Name y \<in> Name ` set ys"
      by auto
    with False 2 show ?thesis by simp
  qed
qed

lemma addSession_spec:
  "addSession x (spec_dedupe ys, Name ` set ys) =
     (spec_dedupe (ys @ [spec_normalize x]), Name ` set (ys @ [spec_normalize x]))"
  by (auto simp: addSession_def spec_dedupe_snoc spec_normalize_def ReplaceAll_def Let_def)

lemma addSessions_spec:
  "addSessions xs (spec_dedupe ys, Name ` set ys) =
     (spec_dedupe (ys @ map spec_normalize xs), Name ` set (ys @ map spec_normalize xs))"
proof (induction xs arbitrary: ys)
  case Nil
  show ?case by (simp add: addSessions_def)
next
  case (Cons x xs)
  have "addSessions (x # xs) (spec_dedupe ys, Name ` set ys) =
        addSessions xs (addSession x (spec_dedupe ys, Name ` set ys))"
    by (simp add: addSessions_def)
  also have "\<dots> = addSessions xs (spec_dedupe (ys @ [spec_normalize x]), Name ` set (ys @ [spec_normalize x]))"
    by (simp only: addSession_spec)
  also have "\<dots> = (spec_dedupe ((ys @ [spec_normalize x]) @ map spec_normalize xs),
                    Name ` set ((ys @ [spec_normalize x]) @ map spec_normalize xs))"
    by (rule Cons.IH)
  finally show ?case by simp
qed

lemma mergeSessions_spec:
  "mergeSessions T F W Z = spec_catalog T F W Z"
proof -
  let ?n = "map spec_normalize"
  have "([], {}) = (spec_dedupe [], Name ` set ([] :: Session list))"
    by simp
  then have 1: "addSessions T ([], {}) = (spec_dedupe ([] @ ?n T), Name ` set ([] @ ?n T))"
    by (simp only: addSessions_spec)
  have 2: "addSessions F (addSessions T ([], {})) =
             (spec_dedupe (([] @ ?n T) @ ?n F), Name ` set (([] @ ?n T) @ ?n F))"
    by (simp only: 1 addSessions_spec)
  have 3: "addSessions W (addSessions F (addSessions T ([], {}))) =
             (spec_dedupe ((([] @ ?n T) @ ?n F) @ ?n W), Name ` set ((([] @ ?n T) @ ?n F) @ ?n W))"
    by (simp only: 2 addSessions_spec)
  have 4: "addSessions Z (addSessions W (addSessions F (addSessions T ([], {})))) =
             (spec_dedupe (((([] @ ?n T) @ ?n F) @ ?n W) @ ?n Z),
              Name ` set (((([] @ ?n T) @ ?n F) @ ?n W) @ ?n Z))"
    by (simp only: 3 addSessions_spec)
  show ?thesis
    unfolding mergeSessions_def spec_catalog_def 4 by simp
qed

lemma configLoop_flat:
  "fst (fst (configLoop w config (F, W) tr)) =
     F @ map (\<lambda>c. \<lparr>Name = cPath c, Path = cPath c, Type = [], Tmuxinator = cTmuxinator c\<rparr>)
           (filter (\<lambda>c. cType c \<noteq> Some ''worktreeroot'') config)"
  by (induction w config "(F, W)" tr arbitrary: F W rule: configLoop.induct)
     (auto split: prod.splits)

lemma configLoop_worktrees:
  "s \<in> set (snd (fst (configLoop w config (F, W) tr))) \<Longrightarrow> s \<notin> set W \<Longrightarrow>
     \<exists>c \<in> set config. cType c = Some ''worktreeroot'' \<and> Name s = Path s \<and>
        Type s = ''worktreeroot'' \<and> Tmuxinator s = cTmuxinator c"
  by (induction w config "(F, W)" tr arbitrary: F W rule: configLoop.induct)
     (fastforce split: prod.splits if_splits)+

lemma getSessions_Ok:
  assumes "loadConfig w tr = (Ok config, tr1)"
    and "getTmuxSessions w tr1 = (T, tr2)"
    and "getZoxideResults w tr2 = (Z, tr3)"
    and "configLoop w config ([], []) tr3 = ((F, W), tr4)"
  shows "getSessions w tr = (Ok (spec_catalog T F W Z), tr4)"
  using assms by (simp add: getSessions_def mergeSessions_spec)

lemma getSessions_OkD:
  assumes "getSessions w tr = (Ok catalog, tr')"
  obtains config tr1 T tr2 Z tr3 F W where
    "loadConfig w tr = (Ok config, tr1)" "getTmuxSessions w tr1 = (T, tr2)"
    "getZoxideResults w tr2 = (Z, tr3)" "configLoop w config ([], []) tr3 = ((F, W), tr')"
    "catalog = spec_catalog T F W Z"
  using assms
  by (auto simp: getSessions_def mergeSessions_spec split: prod.splits result.splits)

section \<open>Looking names up in the catalog\<close>

lemma find_filter_implied:
  "(\<And>x. P x \<Longrightarrow> Q x) \<Longrightarrow> find P (filter Q xs) = find P xs"
  by (induction xs) auto

lemma find_append_first:
  "find P (xs @ ys) = (case find P xs of None \<Rightarrow> find P ys | Some x \<Rightarrow> Some x)"
  by (induction xs) auto

lemma spec_dedupe_filter_name:
  "filter (\<lambda>s. Name s = n) (spec_dedupe xs) =
     (case find (\<lambda>s. Name s = n) xs of None \<Rightarrow> [] | Some s \<Rightarrow> [s])"
proof (induction xs rule: spec_dedupe.induct)
  case 1
  show ?case by simp
next
  case (2 a ys)
  show ?case
  proof (cases "Name a = n")
    case True
    have "find (\<lambda>s. Name s = n) (filter (\<lambda>t. Name t \<noteq> Name a) ys) = None"
      using True by (simp add: find_None_iff)
    with True 2 show ?thesis by simp
  next
    case False
    have "find (\<lambda>s. Name s = n) (filter (\<lambda>t. Name t \<noteq> Name a) ys) = find (\<lambda>s. Name s = n) ys"
      using False by (intro find_filter_implied) auto
    with False 2 show ?thesis by simp
  qed
qed

lemma spec_dedupe_set: "set (spec_dedupe xs) \<subseteq> set xs"
  by (induction xs rule: spec_dedupe.induct) auto

lemma spec_dedupe_distinct: "distinct (map Name (spec_dedupe xs))"
proof (induction xs rule: spec_dedupe.induct)
  case 1
  show ?case by simp
next
  case (2 a ys)
  have "Name a \<notin> Name ` set (spec_dedupe (filter (\<lambda>t. Name t \<noteq> Name a) ys))"
    using spec_dedupe_set [of "filter (\<lambda>t. Name t \<noteq> Name a) ys"] by auto
  with 2 show ?case by simp
qed

lemma spec_normalize_no_dot: "CHR ''.'' \<notin> set (Name (spec_normalize s))"
  by (auto simp: spec_normalize_def)

lemma spec_normalize_Name: "Name (spec_normalize s) = ReplaceAll (Name s) (CHR ''.'') (CHR ''_'')"
  by (simp add: spec_normalize_def ReplaceAll_def)

lemma catalog_no_dot: "s \<in> set (spec_catalog T F W Z) \<Longrightarrow> CHR ''.'' \<notin> set (Name s)"
  using spec_dedupe_set [of "map spec_normalize (T @ F @ W @ Z)"] spec_normalize_no_dot
  unfolding spec_catalog_def by (metis (no_types, lifting) imageE list.set_map subsetD)

lemma catalog_entry:
  "filter (\<lambda>s. Name s = n) (spec_catalog T F W Z) =
     (case find (\<lambda>s. ReplaceAll (Name s) (CHR ''.'') (CHR ''_'') = n) (T @ F @ W @ Z) of
        None \<Rightarrow> [] | Some s \<Rightarrow> [s\<lparr>Name := n\<rparr>])"
proof -
  have "find (\<lambda>s. Name s = n) (map spec_normalize xs) =
          map_option (\<lambda>s. s\<lparr>Name := n\<rparr>) (find (\<lambda>s. ReplaceAll (Name s) (CHR ''.'') (CHR ''_'') = n) xs)" for xs
    by (induction xs) (auto simp: spec_normalize_def ReplaceAll_def)
  then show ?thesis
    unfolding spec_catalog_def spec_dedupe_filter_name
    by (cases "find (\<lambda>s. ReplaceAll (Name s) (CHR ''.'') (CHR ''_'') = n) (T @ F @ W @ Z)")
       (simp_all del: map_append)
qed

lemma getTmuxSessions_bare:
  "s \<in> set (fst (getTmuxSessions w tr)) \<Longrightarrow> Path s = [] \<and> Type s = [] \<and> Tmuxinator s = []"
  by (auto simp: getTmuxSessions_def Output_def split: cmd_result.splits)

lemma find_SomeI:
  "x \<in> set xs \<Longrightarrow> P x \<Longrightarrow> \<exists>y. find P xs = Some y \<and> y \<in> set xs \<and> P y"
  by (induction xs) auto

lemma connect_not_found:
  assumes "getSessions w tr = (Ok catalog, tr')" and "sessionName \<notin> Name ` set catalog"
  shows "connectRunE w (sessionName # rest) tr =
           (Returned (Some (Error (''session '' @ sessionName @ '' not found''))), tr')"
proof -
  have "find (\<lambda>s. Name s = sessionName) catalog = None"
    using assms(2) by (auto simp: find_None_iff)
  with assms(1) show ?thesis
    by (simp add: connectRunE_def)
qed

lemma main_connect_error:
  assumes "connectRunE w [sessionName] tr = (Returned (Some e), tr')"
  shows "main connectSessionCmd w [sessionName] tr = (Exited 1, tr' @ [Stdout (errorMessage e @ [newline])])"
  using assms
  by (simp add: main_def Execute_def connectSessionCmd_def MaximumNArgs_def Println_def)

section \<open>What catalog construction does to the outside\<close>

lemma not_mutating_simps:
  "\<not> isMutating (Run [''tmux'', ''list-sessions'', ''-F'', ''#{session_name}''])"
  "\<not> isMutating (Run [''zoxide'', ''query'', ''-l''])"
  "\<not> isMutating (Run [''git'', ''-C'', root, ''worktree'', ''list'', ''--porcelain''])"
  "\<not> isMutating (Stdout s)"
  "\<not> isMutating (Stderr s)"
  by (simp_all add: isMutating_def isCreation_def)

lemma getTmuxSessions_trace:
  "snd (getTmuxSessions w tr) = tr @ [Run [''tmux'', ''list-sessions'', ''-F'', ''#{session_name}'']]"
  by (simp add: getTmuxSessions_def Output_def tmuxList_def split: cmd_result.splits)

lemma getZoxideResults_trace:
  "snd (getZoxideResults w tr) = tr @ [Run [''zoxide'', ''query'', ''-l'']]"
  by (simp add: getZoxideResults_def Output_def zoxideList_def split: cmd_result.splits)

lemma getGitWorktrees_trace:
  "snd (getGitWorktrees w root tr) =
     tr @ [Run [''git'', ''-C'', root, ''worktree'', ''list'', ''--porcelain'']]"
  by (simp add: getGitWorktrees_def Output_def gitList_def split: cmd_result.splits)

lemma configLoop_trace:
  "\<exists>es. snd (configLoop w config acc tr) = tr @ es \<and> \<not> list_ex isMutating es"
proof (induction w config acc tr rule: configLoop.induct)
  case (1 w acc tr)
  show ?case by simp
next
  case (2 w c cs F W tr)
  show ?case
  proof (cases "cType c = Some ''worktreeroot''")
    case True
    obtain wts tr1 where git: "getGitWorktrees w (cPath c) tr = (wts, tr1)"
      by (cases "getGitWorktrees w (cPath c) tr")
    then have tr1: "tr1 = tr @ [Run [''git'', ''-C'', cPath c, ''worktree'', ''list'', ''--porcelain'']]"
      using getGitWorktrees_trace [of w "cPath c" tr] by simp
    from "2.IH"(1) [OF True git [symmetric]] True git
    obtain es where "snd (configLoop w (c # cs) (F, W) tr) = tr1 @ es" "\<not> list_ex isMutating es"
      by auto
    then show ?thesis
      unfolding tr1 using not_mutating_simps(3) [of "cPath c"]
      by (intro exI [of _ "Run [''git'', ''-C'', cPath c, ''worktree'', ''list'', ''--porcelain''] # es"])
         simp
  next
    case False
    with "2.IH"(2) show ?thesis by simp
  qed
qed

lemma loadConfig_trace:
  "\<exists>es. snd (loadConfig w tr) = tr @ es \<and> \<not> list_ex isMutating es"
  by (auto simp: loadConfig_def Println_def not_mutating_simps split: sum.splits)

lemma getSessions_trace:
  "\<exists>es. snd (getSessions w tr) = tr @ es \<and> \<not> list_ex isMutating es"
proof (cases "loadConfig w tr")
  case (Pair r tr1)
  from loadConfig_trace [of w tr] Pair
  obtain es1 where es1: "tr1 = tr @ es1" "\<not> list_ex isMutating es1"
    by auto
  show ?thesis
  proof (cases r)
    case (Ok config)
    obtain T tr2 where T: "getTmuxSessions w tr1 = (T, tr2)"
      by (cases "getTmuxSessions w tr1")
    obtain Z tr3 where Z: "getZoxideResults w tr2 = (Z, tr3)"
      by (cases "getZoxideResults w tr2")
    obtain F W tr4 where L: "configLoop w config ([], []) tr3 = ((F, W), tr4)"
      by (cases "configLoop w config ([], []) tr3") auto
    from T have tr2: "tr2 = tr1 @ [Run [''tmux'', ''list-sessions'', ''-F'', ''#{session_name}'']]"
      using getTmuxSessions_trace [of w tr1] by simp
    from Z have tr3: "tr3 = tr2 @ [Run [''zoxide'', ''query'', ''-l'']]"
      using getZoxideResults_trace [of w tr2] by simp
    from configLoop_trace [of w config "([], [])" tr3] L
    obtain es4 where es4: "tr4 = tr3 @ es4" "\<not> list_ex isMutating es4"
      by auto
    have "snd (getSessions w tr) = tr4"
      using Pair Ok T Z L by (simp add: getSessions_def)
    then show ?thesis
      unfolding es4(1) tr3 tr2 es1(1) using es1(2) es4(2)
      by (intro exI [of _ "es1 @ [Run [''tmux'', ''list-sessions'', ''-F'', ''#{session_name}''],
                                  Run [''zoxide'', ''query'', ''-l'']] @ es4"])
         (simp add: not_mutating_simps)
  next
    case (Err e)
    with Pair es1 show ?thesis by (simp add: getSessions_def)
  next
    case (Panic e)
    with Pair es1 show ?thesis by (simp add: getSessions_def)
  qed
qed

section \<open>The sample worlds, evaluated\<close>

lemmas string_fun_defs =
  trimmedLines_def TrimSpace_def spaceRunes_def TrimPrefix_def HasPrefix_def newline_def

lemmas sampleRespond_simps =
  sampleRespond_def tmuxList_def zoxideList_def gitList_def

lemma with_loadConfig: "loadConfig (sampleWorldWith answers variables) tr = (Ok sampleExpanded, tr)"
  by (simp add: loadConfig_def getConfigPath_def sampleWorldWith_def sampleConfig_def
      sampleExpanded_def expandHomePath_def HasPrefix_def)

lemma with_getTmuxSessions:
  assumes "answers tr tmuxList = sampleRespond tr tmuxList"
  shows "getTmuxSessions (sampleWorldWith answers variables) tr = (sampleLive, tr @ [Run tmuxList])"
proof -
  have "respond (sampleWorldWith answers variables) tr tmuxList =
          CmdOut (''main'' @ [newline] @ '' a.b '' @ [newline])"
    using assms by (simp add: sampleWorldWith_def sampleRespond_def)
  then show ?thesis
    unfolding getTmuxSessions_def Output_def tmuxList_def [symmetric]
    by (simp add: sampleLive_def string_fun_defs)
qed

lemma with_getZoxideResults:
  assumes "answers tr zoxideList = sampleRespond tr zoxideList"
  shows "getZoxideResults (sampleWorldWith answers variables) tr =
           (sampleFrequent, tr @ [Run zoxideList])"
proof -
  have "respond (sampleWorldWith answers variables) tr zoxideList =
          CmdOut (''/repo/wt'' @ [newline] @ ''a.b.c'' @ [newline])"
    using assms by (simp add: sampleWorldWith_def sampleRespond_simps)
  then show ?thesis
    unfolding getZoxideResults_def Output_def zoxideList_def [symmetric]
    by (simp add: sampleFrequent_def string_fun_defs)
qed

lemma with_getGitWorktrees:
  assumes "answers tr (gitList root) = sampleRespond tr (gitList root)"
  shows "getGitWorktrees (sampleWorldWith answers variables) root tr =
           ([''/repo'', ''/repo/wt''], tr @ [Run (gitList root)])"
proof -
  have "respond (sampleWorldWith answers variables) tr (gitList root) =
          CmdOut (''worktree /repo'' @ [newline] @ ''HEAD 0a1b'' @ [newline] @ [newline] @
                ''worktree /repo/wt'' @ [newline])"
    using assms by (simp add: sampleWorldWith_def sampleRespond_simps)
  then show ?thesis
    unfolding getGitWorktrees_def Output_def gitList_def [symmetric]
    by (simp add: string_fun_defs)
qed

lemma with_configLoop:
  assumes "answers tr (gitList ''/repo'') = sampleRespond tr (gitList ''/repo'')"
  shows "configLoop (sampleWorldWith answers variables) sampleExpanded ([], []) tr =
           ((sampleFlat, sampleWorktrees), tr @ [Run (gitList ''/repo'')])"
  using with_getGitWorktrees [of answers tr "''/repo''" variables] assms
  by (simp add: sampleExpanded_def sampleFlat_def sampleWorktrees_def)


lemma with_getSessions:
  assumes "\<And>tr. answers tr tmuxList = sampleRespond tr tmuxList"
    and "\<And>tr. answers tr zoxideList = sampleRespond tr zoxideList"
    and "\<And>tr. answers tr (gitList ''/repo'') = sampleRespond tr (gitList ''/repo'')"
  shows "getSessions (sampleWorldWith answers variables) tr = (Ok sampleCatalog, tr @ sampleQueries)"
proof -
  have "spec_catalog sampleLive sampleFlat sampleWorktrees sampleFrequent = sampleCatalog"
    by (simp add: spec_catalog_def spec_normalize_def sampleLive_def sampleFlat_def
        sampleWorktrees_def sampleFrequent_def sampleCatalog_def)
  moreover have "((tr @ [Run tmuxList]) @ [Run zoxideList]) @ [Run (gitList ''/repo'')] =
                   tr @ sampleQueries"
    by (simp add: sampleQueries_def gitList_def)
  ultimately show ?thesis
    using getSessions_Ok
            [OF with_loadConfig with_getTmuxSessions with_getZoxideResults with_configLoop,
             OF assms, of variables tr]
    by simp
qed

lemma sample_getSessions: "getSessions sampleWorld tr = (Ok sampleCatalog, tr @ sampleQueries)"
  unfolding sampleWorld_def by (rule with_getSessions) simp_all

lemma inside_getSessions: "getSessions insideWorld tr = (Ok sampleCatalog, tr @ sampleQueries)"
  unfolding insideWorld_def by (rule with_getSessions) simp_all

lemma createFails_getSessions:
  "getSessions createFailsWorld tr = (Ok sampleCatalog, tr @ sampleQueries)"
  unfolding createFailsWorld_def by (rule with_getSessions) (simp_all add: gitList_def)

lemma sample_getTmuxSessions: "getTmuxSessions sampleWorld tr = (sampleLive, tr @ [Run tmuxList])"
  unfolding sampleWorld_def by (rule with_getTmuxSessions) simp

lemma inside_getTmuxSessions: "getTmuxSessions insideWorld tr = (sampleLive, tr @ [Run tmuxList])"
  unfolding insideWorld_def by (rule with_getTmuxSessions) simp

lemma createFails_getTmuxSessions:
  "getTmuxSessions createFailsWorld tr = (sampleLive, tr @ [Run tmuxList])"
  unfolding createFailsWorld_def by (rule with_getTmuxSessions) simp

lemma sample_getZoxideResults:
  "getZoxideResults sampleWorld tr = (sampleFrequent, tr @ [Run zoxideList])"
  unfolding sampleWorld_def by (rule with_getZoxideResults) simp

lemma sample_configLoop:
  "configLoop sampleWorld sampleExpanded ([], []) tr =
     ((sampleFlat, sampleWorktrees), tr @ [Run (gitList ''/repo'')])"
  unfolding sampleWorld_def by (rule with_configLoop) simp

lemma sample_loadConfig: "loadConfig sampleWorld tr = (Ok sampleExpanded, tr)"
  unfolding sampleWorld_def by (rule with_loadConfig)

lemma silent_getSessions:
  "getSessions silentWorld tr = (Ok [], tr @ [Run tmuxList, Run zoxideList])"
proof -
  have "loadConfig silentWorld tr = (Ok [], tr)"
    by (simp add: loadConfig_def getConfigPath_def silentWorld_def brokenWorld_def
        sampleWorldWith_def)
  moreover have "getTmuxSessions silentWorld (tr) = ([], tr @ [Run tmuxList])"
    by (simp add: getTmuxSessions_def Output_def silentWorld_def brokenWorld_def
        sampleWorldWith_def tmuxList_def)
  moreover have "getZoxideResults silentWorld (tr @ [Run tmuxList]) =
                   ([], (tr @ [Run tmuxList]) @ [Run zoxideList])"
    by (simp add: getZoxideResults_def Output_def silentWorld_def brokenWorld_def
        sampleWorldWith_def zoxideList_def)
  moreover have "configLoop silentWorld [] ([], []) ((tr @ [Run tmuxList]) @ [Run zoxideList]) =
                   (([], []), (tr @ [Run tmuxList]) @ [Run zoxideList])"
    by simp
  ultimately have "getSessions silentWorld tr =
      (Ok (spec_catalog [] [] [] []), (tr @ [Run tmuxList]) @ [Run zoxideList])"
    by (rule getSessions_Ok)
  then show ?thesis
    by (simp add: spec_catalog_def)
qed

section \<open>Connecting and listing\<close>

lemma find_Some_Name:
  "find (\<lambda>s. Name s = n) xs = Some x \<Longrightarrow> Name x = n"
  by (induction xs) (auto split: if_splits)

lemma connect_selected:
  assumes "getSessions w tr = (Ok catalog, tr1)"
    and "find (\<lambda>s. Name s = sessionName) catalog = Some selected"
    and "getTmuxSessions w tr1 = (live, tr2)"
  shows "connectRunE w [sessionName] tr =
           (if list_ex (\<lambda>s. Name s = sessionName) live then
              (if isInsideTmuxSession w then
                 (case switchToTmuxSession w sessionName tr2 of (r, tr4) \<Rightarrow> (Returned r, tr4))
               else attachSession w sessionName tr2)
            else
              (case createTmuxSession w selected tr2 of
                 (Some e, tr3) \<Rightarrow> (Returned (Some e), tr3)
               | (None, tr3) \<Rightarrow>
                   (if isInsideTmuxSession w then
                      (case switchToTmuxSession w sessionName tr3 of (r, tr4) \<Rightarrow> (Returned r, tr4))
                    else attachSession w sessionName tr3)))"
  using assms find_Some_Name [OF assms(2)]
  by (simp add: connectRunE_def Let_def split: prod.splits option.splits)

lemma isCreation_isMutating: "isCreation e \<Longrightarrow> isMutating e"
  by (cases e) (simp_all add: isMutating_def isCreation_def)

lemma switchToTmuxSession_trace:
  "snd (switchToTmuxSession w n tr) = tr @ [Run [''tmux'', ''switch-client'', ''-t'', n]]"
  by (simp add: switchToTmuxSession_def RunCmd_def split: cmd_result.splits)

lemma attachSession_commands:
  "\<exists>es. snd (attachSession w n tr) = tr @ es \<and> \<not> list_ex isCreation es \<and>
      filter isCommand es =
        (case lookPath w ''tmux'' of Inl e \<Rightarrow> []
         | Inr tmuxPath \<Rightarrow>
             [SysExec tmuxPath [''tmux'', ''attach-session'', ''-t'', n] (environ w)])"
  by (auto simp: attachSession_def Let_def isCreation_def isCommand_def
      split: sum.splits option.splits)

lemma connect_creation_fails:
  assumes "getSessions w tr = (Ok catalog, tr1)"
    and "find (\<lambda>s. Name s = sessionName) catalog = Some selected"
    and "getTmuxSessions w tr1 = (live, tr2)"
    and "\<not> list_ex (\<lambda>s. Name s = Name selected) live"
    and "createTmuxSession w selected tr2 = (Some e, tr3)"
  shows "connectRunE w [sessionName] tr = (Returned (Some e), tr3)"
  using connect_selected [OF assms(1-3)] assms(4,5) find_Some_Name [OF assms(2)]
  by simp

lemma foldl_Println:
  "foldl (\<lambda>tr' session. Println (Name session) tr') tr xs =
     tr @ map (\<lambda>s. Stdout (Name s @ [newline])) xs"
  by (induction xs arbitrary: tr) (simp_all add: Println_def)

lemma list_prints_catalog:
  assumes "getSessions w tr = (Ok catalog, tr')"
  shows "main listSessionsCmd w args tr =
           (Exited 0, tr' @ map (\<lambda>s. Stdout (Name s @ [newline])) catalog)"
  using assms
  by (simp add: main_def Execute_def listSessionsCmd_def ArbitraryArgs_def listRunE_def
      foldl_Println)

lemma lister_failures:
  "respond w tr [''tmux'', ''list-sessions'', ''-F'', ''#{session_name}''] = CmdErr e \<Longrightarrow>
     getTmuxSessions w tr = ([], tr @ [Run tmuxList])"
  "respond w tr [''zoxide'', ''query'', ''-l''] = CmdErr e \<Longrightarrow>
     getZoxideResults w tr = ([], tr @ [Run zoxideList])"
  "respond w tr [''git'', ''-C'', root, ''worktree'', ''list'', ''--porcelain''] = CmdErr e \<Longrightarrow>
     getGitWorktrees w root tr = ([], tr @ [Run (gitList root)])"
  by (simp_all add: getTmuxSessions_def getZoxideResults_def getGitWorktrees_def Output_def
      tmuxList_def zoxideList_def gitList_def)

lemma isMessage_simps:
  "\<not> isMessage (Run argv)" "isMessage (Stdout s)" "isMessage (Stderr s)"
  "\<not> isMessage (SysExec path argv env)"
  by (simp_all add: isMessage_def)

lemma configLoop_messages:
  "\<exists>es. snd (configLoop w config acc tr) = tr @ es \<and> filter isMessage es = []"
proof (induction w config acc tr rule: configLoop.induct)
  case (1 w acc tr)
  show ?case by simp
next
  case (2 w c cs F W tr)
  show ?case
  proof (cases "cType c = Some ''worktreeroot''")
    case True
    obtain wts tr1 where git: "getGitWorktrees w (cPath c) tr = (wts, tr1)"
      by (cases "getGitWorktrees w (cPath c) tr")
    then have tr1: "tr1 = tr @ [Run [''git'', ''-C'', cPath c, ''worktree'', ''list'', ''--porcelain'']]"
      using getGitWorktrees_trace [of w "cPath c" tr] by simp
    from "2.IH"(1) [OF True git [symmetric]] True git
    obtain es where "snd (configLoop w (c # cs) (F, W) tr) = tr1 @ es" "filter isMessage es = []"
      by auto
    then show ?thesis
      unfolding tr1
      by (intro exI [of _ "Run [''git'', ''-C'', cPath c, ''worktree'', ''list'', ''--porcelain''] # es"])
         (simp add: isMessage_simps)
  next
    case False
    with "2.IH"(2) show ?thesis by simp
  qed
qed

lemma loadConfig_messages:
  "snd (loadConfig w tr) = tr \<or>
   snd (loadConfig w tr) = tr @ [Stdout (''No config file was found'' @ [newline])]"
  by (auto simp: loadConfig_def Println_def split: sum.splits)

lemma getSessions_messages:
  "\<exists>es. snd (getSessions w tr) = tr @ es \<and>
      (filter isMessage es = [] \<or>
       filter isMessage es = [Stdout (''No config file was found'' @ [newline])])"
proof (cases "loadConfig w tr")
  case (Pair r tr1)
  from loadConfig_messages [of w tr] Pair
  obtain es1 where es1: "tr1 = tr @ es1"
    "filter isMessage es1 = [] \<or>
     filter isMessage es1 = [Stdout (''No config file was found'' @ [newline])]"
    by (auto simp: isMessage_simps)
  show ?thesis
  proof (cases r)
    case (Ok config)
    obtain T tr2 where T: "getTmuxSessions w tr1 = (T, tr2)"
      by (cases "getTmuxSessions w tr1")
    obtain Z tr3 where Z: "getZoxideResults w tr2 = (Z, tr3)"
      by (cases "getZoxideResults w tr2")
    obtain F W tr4 where L: "configLoop w config ([], []) tr3 = ((F, W), tr4)"
      by (cases "configLoop w config ([], []) tr3") auto
    from T have tr2: "tr2 = tr1 @ [Run [''tmux'', ''list-sessions'', ''-F'', ''#{session_name}'']]"
      using getTmuxSessions_trace [of w tr1] by simp
    from Z have tr3: "tr3 = tr2 @ [Run [''zoxide'', ''query'', ''-l'']]"
      using getZoxideResults_trace [of w tr2] by simp
    from configLoop_messages [of w config "([], [])" tr3] L
    obtain es4 where es4: "tr4 = tr3 @ es4" "filter isMessage es4 = []"
      by auto
    have "snd (getSessions w tr) = tr4"
      using Pair Ok T Z L by (simp add: getSessions_def)
    then show ?thesis
      unfolding es4(1) tr3 tr2 es1(1) using es1(2) es4(2)
      by (intro exI [of _ "es1 @ [Run [''tmux'', ''list-sessions'', ''-F'', ''#{session_name}''],
                                  Run [''zoxide'', ''query'', ''-l'']] @ es4"])
         (simp add: isMessage_simps)
  next
    case (Err e)
    with Pair es1 show ?thesis by (auto simp: getSessions_def)
  next
    case (Panic e)
    with Pair es1 show ?thesis by (auto simp: getSessions_def)
  qed
qed

section \<open>Catalog construction in closed form\<close>

lemma configLoop_closed:
  "configLoop w config (F, W) t =
     ((F @ map (\<lambda>c. \<lparr>Name = cPath c, Path = cPath c, Type = [], Tmuxinator = cTmuxinator c\<rparr>)
              (filter (\<lambda>c. cType c \<noteq> Some ''worktreeroot'') config),
       W @ worktreeGroup w (filter (\<lambda>c. cType c = Some ''worktreeroot'') config) t),
      t @ map (\<lambda>r. Run (gitList (cPath r)))
            (filter (\<lambda>c. cType c = Some ''worktreeroot'') config))"
proof (induction w config "(F, W)" t arbitrary: F W rule: configLoop.induct)
  case (1 w t)
  show ?case by simp
next
  case (2 w c cs F W t)
  show ?case
  proof (cases "cType c = Some ''worktreeroot''")
    case True
    obtain wts t1 where git: "getGitWorktrees w (cPath c) t = (wts, t1)"
      by (cases "getGitWorktrees w (cPath c) t")
    then have t1: "t1 = t @ [Run (gitList (cPath c))]"
      using getGitWorktrees_trace [of w "cPath c" t] by (simp add: gitList_def)
    from "2.hyps"(1) [OF True git [symmetric]] True git t1 show ?thesis
      by simp
  next
    case False
    with "2.hyps"(2) [OF False] show ?thesis
      by simp
  qed
qed

lemma getGitWorktrees_fst:
  "fst (getGitWorktrees w root t) =
     (case respond w t (gitList root) of CmdErr e \<Rightarrow> []
      | CmdOut out \<Rightarrow>
          map (\<lambda>line. TrimSpace (TrimPrefix line ''worktree ''))
            (filter (\<lambda>line. HasPrefix line ''worktree '') (Split out newline)))"
  by (simp add: getGitWorktrees_def Output_def split: cmd_result.splits)

lemma worktreeGroup_indexed:
  "worktreeGroup w roots t =
     concat (map (\<lambda>i.
         map (\<lambda>p. \<lparr>Name = p, Path = p, Type = ''worktreeroot'',
                    Tmuxinator = cTmuxinator (roots ! i)\<rparr>)
           (case respond w (t @ map (\<lambda>r. Run (gitList (cPath r))) (take i roots))
                   (gitList (cPath (roots ! i))) of
              CmdErr e \<Rightarrow> []
            | CmdOut out \<Rightarrow>
                map (\<lambda>line. TrimSpace (TrimPrefix line ''worktree ''))
                  (filter (\<lambda>line. HasPrefix line ''worktree '') (Split out newline))))
       [0..<length roots])"
proof (induction roots arbitrary: t)
  case Nil
  show ?case by simp
next
  case (Cons r rs)
  have upt: "[0..<length (r # rs)] = 0 # map Suc [0..<length rs]"
    by (simp add: upt_conv_Cons map_Suc_upt del: upt_Suc)
  show ?case
    unfolding upt worktreeGroup.simps Cons.IH getGitWorktrees_fst
    by (simp add: comp_def)
qed

lemma catalog_has_name:
  assumes "s \<in> set (T @ F @ W @ Z)"
  shows "ReplaceAll (Name s) (CHR ''.'') (CHR ''_'') \<in> Name ` set (mergeSessions T F W Z)"
proof -
  let ?n = "ReplaceAll (Name s) (CHR ''.'') (CHR ''_'')"
  from find_SomeI [of s "T @ F @ W @ Z" "\<lambda>x. ReplaceAll (Name x) (CHR ''.'') (CHR ''_'') = ?n"] assms
  obtain f where "find (\<lambda>x. ReplaceAll (Name x) (CHR ''.'') (CHR ''_'') = ?n) (T @ F @ W @ Z) = Some f"
    by auto
  then have "filter (\<lambda>e. Name e = ?n) (spec_catalog T F W Z) = [f\<lparr>Name := ?n\<rparr>]"
    by (simp add: catalog_entry)
  then have "f\<lparr>Name := ?n\<rparr> \<in> set (filter (\<lambda>e. Name e = ?n) (spec_catalog T F W Z))"
    by simp
  then have "f\<lparr>Name := ?n\<rparr> \<in> set (spec_catalog T F W Z)"
    by simp
  then have "Name (f\<lparr>Name := ?n\<rparr>) \<in> Name ` set (spec_catalog T F W Z)"
    by (rule imageI)
  then show ?thesis
    by (simp add: mergeSessions_spec)
qed

lemma getTmuxSessions_closed:
  "getTmuxSessions w t =
     (case respond w t tmuxList of CmdErr e \<Rightarrow> []
      | CmdOut out \<Rightarrow>
          map (\<lambda>n. \<lparr>Name = n, Path = [], Type = [], Tmuxinator = []\<rparr>) (trimmedLines out),
      t @ [Run tmuxList])"
  by (simp add: getTmuxSessions_def Output_def split: cmd_result.splits)

lemma getZoxideResults_closed:
  "getZoxideResults w t =
     (case respond w t zoxideList of CmdErr e \<Rightarrow> []
      | CmdOut out \<Rightarrow>
          map (\<lambda>n. \<lparr>Name = n, Path = n, Type = [], Tmuxinator = []\<rparr>) (trimmedLines out),
      t @ [Run zoxideList])"
  by (simp add: getZoxideResults_def Output_def split: cmd_result.splits)

lemma noIndex_respond:
  "respond noIndexWorld t tmuxList = CmdOut (''main'' @ [newline] @ '' a.b '' @ [newline])"
  "respond noIndexWorld t zoxideList = CmdErr (Error ''exit status 1'')"
  "respond noIndexWorld t (gitList ''/repo'') =
     CmdOut (''worktree /repo'' @ [newline] @ ''HEAD 0a1b'' @ [newline] @ [newline] @
             ''worktree /repo/wt'' @ [newline])"
  by (simp_all add: noIndexWorld_def sampleWorldWith_def sampleRespond_simps)

lemma noIndex_loadConfig: "loadConfig noIndexWorld tr = (Ok sampleExpanded, tr)"
  unfolding noIndexWorld_def by (rule with_loadConfig)

lemma patchy_respond:
  "respond patchyWorld t tmuxList = CmdErr (Error ''exit status 1'')"
  "respond patchyWorld t zoxideList = CmdOut (''/z'' @ [newline])"
  "respond patchyWorld t (gitList ''/r1'') = CmdErr (Error ''exit status 1'')"
  "respond patchyWorld t (gitList ''/r2'') = CmdOut (''worktree /r2'' @ [newline])"
  by (simp_all add: patchyWorld_def patchyRespond_def sampleWorldWith_def tmuxList_def
      zoxideList_def gitList_def)

lemma patchy_loadConfig: "loadConfig patchyWorld tr = (Ok patchyConfig, tr)"
  by (simp add: loadConfig_def getConfigPath_def patchyWorld_def sampleWorldWith_def
      patchyConfig_def expandHomePath_def HasPrefix_def)

section \<open>The claims\<close>

text \<open>
  \<^bold>\<open>C1.\<close> Whatever the config list, the live multiplexer sessions, the worktrees and the
  frequency index are, \<open>getSessions\<close> returns the catalog of the specified algorithm: the four
  groups concatenated in the order live, flat config (name = path), worktree-expanded config,
  frequency index; every name normalised (each \<open>.\<close> replaced by \<open>_\<close>); and of the sessions
  with the same normalised name only the first one kept.
\<close>

theorem getSessions_builds_catalog:
  assumes "loadConfig w tr = (Ok config, tr1)"
    and "getTmuxSessions w tr1 = (tmuxSessions, tr2)"
    and "getZoxideResults w tr2 = (zoxideSessions, tr3)"
    and "configLoop w config ([], []) tr3 = ((configSessions, configWorktreeSessions), tr4)"
  shows "getSessions w tr =
           (Ok (spec_dedupe (map spec_normalize
                  (tmuxSessions @ configSessions @ configWorktreeSessions @ zoxideSessions))), tr4)
         \<and> configSessions =
             map (\<lambda>c. \<lparr>Name = cPath c, Path = cPath c, Type = [], Tmuxinator = cTmuxinator c\<rparr>)
               (filter (\<lambda>c. cType c \<noteq> Some ''worktreeroot'') config)
         \<and> (\<forall>s \<in> set configWorktreeSessions.
               Name s = Path s \<and> Type s = ''worktreeroot'' \<and>
               (\<exists>c \<in> set config. cType c = Some ''worktreeroot'' \<and> Tmuxinator s = cTmuxinator c))
         \<and> mergeSessions live flat worktree frequency =
             spec_dedupe (map spec_normalize (live @ flat @ worktree @ frequency))"
proof -
  have catalog: "getSessions w tr =
           (Ok (spec_dedupe (map spec_normalize
                  (tmuxSessions @ configSessions @ configWorktreeSessions @ zoxideSessions))), tr4)"
    using getSessions_Ok [OF assms] by (simp add: spec_catalog_def)
  have flat: "configSessions =
             map (\<lambda>c. \<lparr>Name = cPath c, Path = cPath c, Type = [], Tmuxinator = cTmuxinator c\<rparr>)
               (filter (\<lambda>c. cType c \<noteq> Some ''worktreeroot'') config)"
    using configLoop_flat [of w config "[]" "[]" tr3] assms(4) by simp
  have pure: "mergeSessions live flat worktree frequency =
             spec_dedupe (map spec_normalize (live @ flat @ worktree @ frequency))"
    by (simp add: mergeSessions_spec spec_catalog_def)
  have expanded: "Name s = Path s \<and> Type s = ''worktreeroot'' \<and>
               (\<exists>c \<in> set config. cType c = Some ''worktreeroot'' \<and> Tmuxinator s = cTmuxinator c)"
    if "s \<in> set configWorktreeSessions" for s
  proof -
    from that have "s \<in> set (snd (fst (configLoop w config ([], []) tr3)))"
      using assms(4) by simp
    from configLoop_worktrees [OF this] show ?thesis
      by auto
  qed
  from catalog flat pure expanded show ?thesis
    by blast
qed

theorem getSessions_builds_catalog_witness:
  "getSessions sampleWorld [] = (Ok sampleCatalog, sampleQueries) \<and>
   sampleCatalog =
     [\<lparr>Name = ''main'', Path = [], Type = [], Tmuxinator = []\<rparr>,
      \<lparr>Name = ''a_b'', Path = [], Type = [], Tmuxinator = []\<rparr>,
      \<lparr>Name = ''/home/u/a_b'', Path = ''/home/u/a.b'', Type = [], Tmuxinator = ''dev''\<rparr>,
      \<lparr>Name = ''/repo'', Path = ''/repo'', Type = ''worktreeroot'', Tmuxinator = []\<rparr>,
      \<lparr>Name = ''/repo/wt'', Path = ''/repo/wt'', Type = ''worktreeroot'', Tmuxinator = []\<rparr>,
      \<lparr>Name = ''a_b_c'', Path = ''a.b.c'', Type = [], Tmuxinator = []\<rparr>]"
  using getSessions_builds_catalog
          [OF sample_loadConfig sample_getTmuxSessions sample_getZoxideResults sample_configLoop,
           of "[]"]
  by (simp add: spec_normalize_def sampleLive_def sampleFlat_def sampleWorktrees_def
      sampleFrequent_def sampleCatalog_def sampleQueries_def gitList_def)

text \<open>
  \<^bold>\<open>C2.\<close> When a live multiplexer session and a config session (flat or expanded from a
  worktree root) have the same name after normalisation, the catalog has exactly one entry of
  that name, and it carries the attributes of the multiplexer session: no path, no type, no
  template profile.
\<close>

theorem live_session_shadows_config:
  assumes "loadConfig w tr = (Ok config, tr1)"
    and "getTmuxSessions w tr1 = (tmuxSessions, tr2)"
    and "getZoxideResults w tr2 = (zoxideSessions, tr3)"
    and "configLoop w config ([], []) tr3 = ((configSessions, configWorktreeSessions), tr4)"
    and "t \<in> set tmuxSessions"
    and "c \<in> set configSessions \<union> set configWorktreeSessions"
    and "ReplaceAll (Name t) (CHR ''.'') (CHR ''_'') = ReplaceAll (Name c) (CHR ''.'') (CHR ''_'')"
  shows "\<exists>catalog. getSessions w tr = (Ok catalog, tr4) \<and>
           filter (\<lambda>s. Name s = ReplaceAll (Name c) (CHR ''.'') (CHR ''_'')) catalog =
             [\<lparr>Name = ReplaceAll (Name c) (CHR ''.'') (CHR ''_''),
               Path = [], Type = [], Tmuxinator = []\<rparr>]"
proof -
  let ?n = "ReplaceAll (Name c) (CHR ''.'') (CHR ''_'')"
  let ?P = "\<lambda>s. ReplaceAll (Name s) (CHR ''.'') (CHR ''_'') = ?n"
  let ?catalog = "spec_catalog tmuxSessions configSessions configWorktreeSessions zoxideSessions"
  from find_SomeI [of t tmuxSessions ?P] assms(5,7)
  obtain f where f: "find ?P tmuxSessions = Some f" "f \<in> set tmuxSessions"
    by auto
  from f(2) assms(2) have bare: "Path f = [] \<and> Type f = [] \<and> Tmuxinator f = []"
    using getTmuxSessions_bare [of f w tr1] by simp
  have "find ?P (tmuxSessions @ configSessions @ configWorktreeSessions @ zoxideSessions) = Some f"
    using f(1) by (simp add: find_append_first)
  then have "filter (\<lambda>s. Name s = ?n) ?catalog = [f\<lparr>Name := ?n\<rparr>]"
    by (simp add: catalog_entry)
  moreover have "f\<lparr>Name := ?n\<rparr> = \<lparr>Name = ?n, Path = [], Type = [], Tmuxinator = []\<rparr>"
    using bare by simp
  moreover have "getSessions w tr = (Ok ?catalog, tr4)"
    by (rule getSessions_Ok [OF assms(1-4)])
  ultimately show ?thesis
    by auto
qed

theorem live_session_shadows_config_witness:
  "getSessions sampleWorld [] = (Ok sampleCatalog, sampleQueries) \<and>
   filter (\<lambda>s. Name s = ''a_b'') sampleCatalog =
     [\<lparr>Name = ''a_b'', Path = [], Type = [], Tmuxinator = []\<rparr>]"
  using live_session_shadows_config
          [OF sample_loadConfig sample_getTmuxSessions sample_getZoxideResults sample_configLoop,
           of "\<lparr>Name = ''a.b'', Path = [], Type = [], Tmuxinator = []\<rparr>"
              "\<lparr>Name = ''a_b'', Path = ''a_b'', Type = [], Tmuxinator = []\<rparr>" "[]"]
    sample_getSessions [of "[]"]
  by (simp add: ReplaceAll_def sampleLive_def sampleFlat_def)

text \<open>
  \<^bold>\<open>C3.\<close> A session named \<open>a.b.c\<close> in any source appears in the catalog as \<open>a_b_c\<close>
  (and nothing in the catalog is named \<open>a.b.c\<close>). When the sources produce the names
  \<open>a.b\<close> and \<open>a_b\<close>, the catalog has exactly one entry named \<open>a_b\<close>: the first session, in
  the order of precedence, whose normalised name is \<open>a_b\<close>, with its name normalised. The
  last conjunct says the same of every name.
\<close>

theorem dotted_names_normalize_and_dedupe:
  assumes "loadConfig w tr = (Ok config, tr1)"
    and "getTmuxSessions w tr1 = (tmuxSessions, tr2)"
    and "getZoxideResults w tr2 = (zoxideSessions, tr3)"
    and "configLoop w config ([], []) tr3 = ((configSessions, configWorktreeSessions), tr4)"
    and "sources = tmuxSessions @ configSessions @ configWorktreeSessions @ zoxideSessions"
  shows "\<exists>catalog. getSessions w tr = (Ok catalog, tr4) \<and>
           (\<forall>s \<in> set sources. Name s = ''a.b.c'' \<longrightarrow>
              (\<exists>e \<in> set catalog. Name e = ''a_b_c'') \<and> (\<forall>e \<in> set catalog. Name e \<noteq> ''a.b.c'')) \<and>
           (\<forall>x \<in> set sources. \<forall>y \<in> set sources. Name x = ''a.b'' \<and> Name y = ''a_b'' \<longrightarrow>
              (\<exists>f. find (\<lambda>s. ReplaceAll (Name s) (CHR ''.'') (CHR ''_'') = ''a_b'') sources = Some f \<and>
                   filter (\<lambda>e. Name e = ''a_b'') catalog = [f\<lparr>Name := ''a_b''\<rparr>])) \<and>
           (\<forall>s \<in> set sources.
              \<exists>f. find (\<lambda>x. ReplaceAll (Name x) (CHR ''.'') (CHR ''_'') =
                              ReplaceAll (Name s) (CHR ''.'') (CHR ''_'')) sources = Some f \<and>
                  filter (\<lambda>e. Name e = ReplaceAll (Name s) (CHR ''.'') (CHR ''_'')) catalog =
                    [f\<lparr>Name := ReplaceAll (Name s) (CHR ''.'') (CHR ''_'')\<rparr>])"
proof -
  let ?catalog = "spec_catalog tmuxSessions configSessions configWorktreeSessions zoxideSessions"
  let ?norm = "\<lambda>n. ReplaceAll n (CHR ''.'') (CHR ''_'')"
  have run: "getSessions w tr = (Ok ?catalog, tr4)"
    by (rule getSessions_Ok [OF assms(1-4)])
  have general: "\<exists>f. find (\<lambda>x. ?norm (Name x) = ?norm (Name s)) sources = Some f \<and>
                  filter (\<lambda>e. Name e = ?norm (Name s)) ?catalog = [f\<lparr>Name := ?norm (Name s)\<rparr>]"
    if "s \<in> set sources" for s
  proof -
    from find_SomeI [of s sources "\<lambda>x. ?norm (Name x) = ?norm (Name s)"] that
    obtain f where "find (\<lambda>x. ?norm (Name x) = ?norm (Name s)) sources = Some f"
      by auto
    then show ?thesis
      unfolding assms(5) by (simp add: catalog_entry)
  qed
  have abc: "(\<exists>e \<in> set ?catalog. Name e = ''a_b_c'') \<and> (\<forall>e \<in> set ?catalog. Name e \<noteq> ''a.b.c'')"
    if "s \<in> set sources" "Name s = ''a.b.c''" for s
  proof -
    from general [OF that(1)] that(2)
    obtain f where "filter (\<lambda>e. Name e = ''a_b_c'') ?catalog = [f\<lparr>Name := ''a_b_c''\<rparr>]"
      by (auto simp: ReplaceAll_def)
    then have "f\<lparr>Name := ''a_b_c''\<rparr> \<in> set (filter (\<lambda>e. Name e = ''a_b_c'') ?catalog)"
      by simp
    then have "f\<lparr>Name := ''a_b_c''\<rparr> \<in> set ?catalog \<and> Name (f\<lparr>Name := ''a_b_c''\<rparr>) = ''a_b_c''"
      by simp
    then have "\<exists>e \<in> set ?catalog. Name e = ''a_b_c''"
      by blast
    moreover have "\<forall>e \<in> set ?catalog. Name e \<noteq> ''a.b.c''"
      using catalog_no_dot [of _ tmuxSessions configSessions configWorktreeSessions zoxideSessions]
      by fastforce
    ultimately show ?thesis
      by simp
  qed
  have ab: "\<exists>f. find (\<lambda>s. ?norm (Name s) = ''a_b'') sources = Some f \<and>
                   filter (\<lambda>e. Name e = ''a_b'') ?catalog = [f\<lparr>Name := ''a_b''\<rparr>]"
    if "x \<in> set sources" "Name x = ''a.b''" for x
    using general [OF that(1)] that(2) by (simp add: ReplaceAll_def)
  from run general abc ab show ?thesis
    by blast
qed

theorem dotted_names_normalize_and_dedupe_witness:
  "getSessions sampleWorld [] = (Ok sampleCatalog, sampleQueries) \<and>
   list_ex (\<lambda>e. Name e = ''a_b_c'') sampleCatalog \<and>
   filter (\<lambda>e. Name e = ''a_b'') sampleCatalog =
     [\<lparr>Name = ''a_b'', Path = [], Type = [], Tmuxinator = []\<rparr>]"
  using dotted_names_normalize_and_dedupe
         [OF sample_loadConfig sample_getTmuxSessions sample_getZoxideResults sample_configLoop refl,
          of "[]"]
    sample_getSessions [of "[]"]
  by (auto simp: ReplaceAll_def sampleLive_def sampleFlat_def sampleWorktrees_def
      sampleFrequent_def list_ex_iff)

text \<open>
  \<^bold>\<open>C4.\<close> When the target name is the name of no session of the catalog, \<open>connect\<close>
  returns the error \<open>session <name> not found\<close>, \<open>main\<close> prints it and exits with status 1,
  and nothing that happened during the run is a session creation, a client switch or an
  attach.
\<close>

theorem connect_missing_name:
  assumes "getSessions w tr = (Ok catalog, tr')"
    and "sessionName \<notin> Name ` set catalog"
  shows "connectRunE w [sessionName] tr =
           (Returned (Some (Error (''session '' @ sessionName @ '' not found''))), tr') \<and>
         main connectSessionCmd w [sessionName] tr =
           (Exited 1, tr' @ [Stdout (''session '' @ sessionName @ '' not found'' @ [newline])]) \<and>
         (\<exists>es. snd (main connectSessionCmd w [sessionName] tr) = tr @ es \<and>
               \<not> list_ex isMutating es)"
proof -
  from connect_not_found [OF assms]
  have run: "connectRunE w [sessionName] tr =
           (Returned (Some (Error (''session '' @ sessionName @ '' not found''))), tr')" .
  from main_connect_error [OF run]
  have exit: "main connectSessionCmd w [sessionName] tr =
           (Exited 1, tr' @ [Stdout (''session '' @ sessionName @ '' not found'' @ [newline])])"
    by simp
  from getSessions_trace [of w tr] assms(1)
  obtain es where es: "tr' = tr @ es" "\<not> list_ex isMutating es"
    by auto
  have "snd (main connectSessionCmd w [sessionName] tr) =
          tr @ (es @ [Stdout (''session '' @ sessionName @ '' not found'' @ [newline])]) \<and>
        \<not> list_ex isMutating (es @ [Stdout (''session '' @ sessionName @ '' not found'' @ [newline])])"
    using exit es by (simp add: not_mutating_simps)
  then have "\<exists>es. snd (main connectSessionCmd w [sessionName] tr) = tr @ es \<and>
               \<not> list_ex isMutating es"
    by blast
  with run exit show ?thesis
    by simp
qed

theorem connect_missing_name_witness:
  "getSessions sampleWorld [] = (Ok sampleCatalog, sampleQueries) \<and>
   ''nope'' \<notin> Name ` set sampleCatalog \<and>
   main connectSessionCmd sampleWorld [''nope''] [] =
     (Exited 1, sampleQueries @ [Stdout ''session nope not found\<newline>'']) \<and>
   \<not> list_ex isMutating (sampleQueries @ [Stdout ''session nope not found\<newline>''])"
proof -
  have missing: "''nope'' \<notin> Name ` set sampleCatalog"
    by (simp add: sampleCatalog_def)
  from connect_missing_name [OF sample_getSessions missing, of "[]"] missing
    sample_getSessions [of "[]"]
  show ?thesis
    by (simp add: newline_def sampleQueries_def tmuxList_def zoxideList_def not_mutating_simps)
qed

text \<open>
  \<^bold>\<open>C5.\<close> When the target is in the catalog and the fresh query of the live sessions
  lists a session of its name, no session is created: after the queries the only external
  command is the client switch when the process is inside a multiplexer client, and otherwise
  the attach that replaces the process (none at all when \<open>tmux\<close> is not found on the path, in
  which case the process exits with status 1).
\<close>

theorem connect_existing_session:
  assumes "getSessions w tr = (Ok catalog, tr1)"
    and "find (\<lambda>s. Name s = sessionName) catalog = Some selected"
    and "getTmuxSessions w tr1 = (live, tr2)"
    and "list_ex (\<lambda>s. Name s = Name selected) live"
  shows "(\<exists>qs es. tr2 = tr @ qs \<and> \<not> list_ex isMutating qs \<and>
            snd (connectRunE w [sessionName] tr) = tr2 @ es \<and>
            \<not> list_ex isCreation (qs @ es) \<and>
            filter isCommand es =
              (if isInsideTmuxSession w
               then [Run [''tmux'', ''switch-client'', ''-t'', sessionName]]
               else (case lookPath w ''tmux'' of Inl e \<Rightarrow> []
                     | Inr tmuxPath \<Rightarrow>
                         [SysExec tmuxPath [''tmux'', ''attach-session'', ''-t'', sessionName]
                            (environ w)]))) \<and>
         (isInsideTmuxSession w \<longrightarrow>
            snd (connectRunE w [sessionName] tr) =
              tr2 @ [Run [''tmux'', ''switch-client'', ''-t'', sessionName]]) \<and>
         (\<not> isInsideTmuxSession w \<and> lookPath w ''tmux'' = Inr tmuxPath \<and>
          sysExec w tmuxPath [''tmux'', ''attach-session'', ''-t'', sessionName] (environ w) = None \<longrightarrow>
            connectRunE w [sessionName] tr =
              (Replaced,
               tr2 @ [SysExec tmuxPath [''tmux'', ''attach-session'', ''-t'', sessionName]
                        (environ w)]))"
proof -
  have name: "Name selected = sessionName"
    by (rule find_Some_Name [OF assms(2)])
  with assms(4) have exists: "list_ex (\<lambda>s. Name s = sessionName) live"
    by simp
  from connect_selected [OF assms(1-3)] exists
  have run: "connectRunE w [sessionName] tr =
           (if isInsideTmuxSession w then
              (case switchToTmuxSession w sessionName tr2 of (r, tr4) \<Rightarrow> (Returned r, tr4))
            else attachSession w sessionName tr2)"
    by simp
  from getSessions_trace [of w tr] assms(1)
  obtain qs1 where qs1: "tr1 = tr @ qs1" "\<not> list_ex isMutating qs1"
    by auto
  from getTmuxSessions_trace [of w tr1] assms(3)
  have tr2: "tr2 = tr @ (qs1 @ [Run [''tmux'', ''list-sessions'', ''-F'', ''#{session_name}'']])"
    using qs1(1) by simp
  let ?qs = "qs1 @ [Run [''tmux'', ''list-sessions'', ''-F'', ''#{session_name}'']]"
  have quiet: "\<not> list_ex isMutating ?qs"
    using qs1(2) by (simp add: not_mutating_simps)
  then have nocreate: "\<not> list_ex isCreation ?qs"
    by (auto simp: list_ex_iff dest: isCreation_isMutating)
  have switch: "snd (connectRunE w [sessionName] tr) =
              tr2 @ [Run [''tmux'', ''switch-client'', ''-t'', sessionName]]"
    if "isInsideTmuxSession w"
    using that run switchToTmuxSession_trace [of w sessionName tr2]
    by (simp split: prod.splits)
  have attach: "connectRunE w [sessionName] tr =
              (Replaced,
               tr2 @ [SysExec tmuxPath [''tmux'', ''attach-session'', ''-t'', sessionName]
                        (environ w)])"
    if "\<not> isInsideTmuxSession w" "lookPath w ''tmux'' = Inr tmuxPath"
       "sysExec w tmuxPath [''tmux'', ''attach-session'', ''-t'', sessionName] (environ w) = None"
    using that run by (simp add: attachSession_def)
  have "\<exists>es. snd (connectRunE w [sessionName] tr) = tr2 @ es \<and>
            \<not> list_ex isCreation es \<and>
            filter isCommand es =
              (if isInsideTmuxSession w
               then [Run [''tmux'', ''switch-client'', ''-t'', sessionName]]
               else (case lookPath w ''tmux'' of Inl e \<Rightarrow> []
                     | Inr tmuxPath \<Rightarrow>
                         [SysExec tmuxPath [''tmux'', ''attach-session'', ''-t'', sessionName]
                            (environ w)]))"
  proof (cases "isInsideTmuxSession w")
    case True
    with switch show ?thesis
      by (intro exI [of _ "[Run [''tmux'', ''switch-client'', ''-t'', sessionName]]"])
         (simp add: isCreation_def isCommand_def)
  next
    case False
    with run attachSession_commands [of w sessionName tr2] show ?thesis
      by simp
  qed
  then obtain es where es: "snd (connectRunE w [sessionName] tr) = tr2 @ es"
    "\<not> list_ex isCreation es"
    "filter isCommand es =
              (if isInsideTmuxSession w
               then [Run [''tmux'', ''switch-client'', ''-t'', sessionName]]
               else (case lookPath w ''tmux'' of Inl e \<Rightarrow> []
                     | Inr tmuxPath \<Rightarrow>
                         [SysExec tmuxPath [''tmux'', ''attach-session'', ''-t'', sessionName]
                            (environ w)]))"
    by blast
  from nocreate es(2) have "\<not> list_ex isCreation (?qs @ es)"
    by simp
  with tr2 quiet es(1,3) have first: "\<exists>qs es. tr2 = tr @ qs \<and> \<not> list_ex isMutating qs \<and>
            snd (connectRunE w [sessionName] tr) = tr2 @ es \<and>
            \<not> list_ex isCreation (qs @ es) \<and>
            filter isCommand es =
              (if isInsideTmuxSession w
               then [Run [''tmux'', ''switch-client'', ''-t'', sessionName]]
               else (case lookPath w ''tmux'' of Inl e \<Rightarrow> []
                     | Inr tmuxPath \<Rightarrow>
                         [SysExec tmuxPath [''tmux'', ''attach-session'', ''-t'', sessionName]
                            (environ w)]))"
    by blast
  from first switch attach show ?thesis
    by blast
qed

theorem connect_existing_session_witness:
  "connectRunE sampleWorld [''main''] [] =
     (Replaced,
      sampleQueries @
        [Run tmuxList,
         SysExec ''/usr/bin/tmux'' [''tmux'', ''attach-session'', ''-t'', ''main'']
           [''HOME=/home/u'']]) \<and>
   snd (connectRunE insideWorld [''main''] []) =
     sampleQueries @ [Run tmuxList, Run [''tmux'', ''switch-client'', ''-t'', ''main'']]"
proof -
  let ?main = "\<lparr>Name = ''main'', Path = [], Type = [], Tmuxinator = []\<rparr>"
  have found: "find (\<lambda>s. Name s = ''main'') sampleCatalog = Some ?main"
    by (simp add: sampleCatalog_def)
  have alive: "list_ex (\<lambda>s. Name s = Name ?main) sampleLive"
    by (simp add: sampleLive_def)
  have outside: "environ sampleWorld = [''HOME=/home/u'']"
    "\<not> isInsideTmuxSession sampleWorld"
    "lookPath sampleWorld ''tmux'' = Inr ''/usr/bin/tmux''"
    "sysExec sampleWorld ''/usr/bin/tmux'' [''tmux'', ''attach-session'', ''-t'', ''main'']
        [''HOME=/home/u''] = None"
    by (simp_all add: isInsideTmuxSession_def sampleWorld_def sampleWorldWith_def)
  have inside: "isInsideTmuxSession insideWorld"
    by (simp add: isInsideTmuxSession_def insideWorld_def sampleWorldWith_def)
  from connect_existing_session
         [OF sample_getSessions [of "[]"] found sample_getTmuxSessions alive,
          THEN conjunct2, THEN conjunct2, of "''/usr/bin/tmux''"] outside
  have 1: "connectRunE sampleWorld [''main''] [] =
     (Replaced,
      sampleQueries @
        [Run tmuxList,
         SysExec ''/usr/bin/tmux'' [''tmux'', ''attach-session'', ''-t'', ''main'']
           [''HOME=/home/u'']])"
    by simp
  from connect_existing_session
         [OF inside_getSessions [of "[]"] found inside_getTmuxSessions alive,
          THEN conjunct2, THEN conjunct1] inside
  have 2: "snd (connectRunE insideWorld [''main''] []) =
     sampleQueries @ [Run tmuxList, Run [''tmux'', ''switch-client'', ''-t'', ''main'']]"
    by simp
  from 1 2 show ?thesis
    by simp
qed

text \<open>
  \<^bold>\<open>C6.\<close> Session creation: with a path and a template profile, the template launcher
  is run through the shell (\<open>yes |\<close> answers its prompt, \<open>--no-attach\<close> leaves the session
  detached) and waited for; with a path and no profile, \<open>tmux new-session\<close> is run detached with
  the name and the working directory; without a path it fails and runs nothing. A failure of
  either command is returned as an error, and \<open>connect\<close> ends with it: nothing is switched or
  attached, and the process exits with status 1.
\<close>

theorem session_creation:
  "(Path session \<noteq> [] \<and> Tmuxinator session \<noteq> [] \<longrightarrow>
      createTmuxSession w session tr =
        (case respond w tr [''sh'', ''-c'',
                 ''cd '' @ Path session @ '' && yes | tmuxinator start -n '' @ Name session @
                 '' -p '' @ Tmuxinator session @ '' --no-attach''] of
           CmdErr e \<Rightarrow> Some (Error (''error starting tmuxinator session: '' @ errorMessage e))
         | CmdOut out \<Rightarrow> None,
         tr @ [Run [''sh'', ''-c'',
                 ''cd '' @ Path session @ '' && yes | tmuxinator start -n '' @ Name session @
                 '' -p '' @ Tmuxinator session @ '' --no-attach'']])) \<and>
   (Path session \<noteq> [] \<and> Tmuxinator session = [] \<longrightarrow>
      createTmuxSession w session tr =
        (case respond w tr [''tmux'', ''new-session'', ''-s'', Name session, ''-d'', ''-c'',
                            Path session] of
           CmdErr e \<Rightarrow> Some (Error (''error creating new tmux session: '' @ errorMessage e))
         | CmdOut out \<Rightarrow> None,
         tr @ [Run [''tmux'', ''new-session'', ''-s'', Name session, ''-d'', ''-c'',
                    Path session]])) \<and>
   (Path session = [] \<longrightarrow>
      createTmuxSession w session tr =
        (Some (Error ''session path is missing, cannot create session''), tr)) \<and>
   (getSessions w tr0 = (Ok catalog, tr1) \<and>
    find (\<lambda>s. Name s = sessionName) catalog = Some session \<and>
    getTmuxSessions w tr1 = (live, tr) \<and>
    \<not> list_ex (\<lambda>s. Name s = Name session) live \<and>
    createTmuxSession w session tr = (Some err, tr3) \<longrightarrow>
      connectRunE w [sessionName] tr0 = (Returned (Some err), tr3) \<and>
      main connectSessionCmd w [sessionName] tr0 =
        (Exited 1, tr3 @ [Stdout (errorMessage err @ [newline])]))"
proof -
  have template: "createTmuxSession w session tr =
        (case respond w tr [''sh'', ''-c'',
                 ''cd '' @ Path session @ '' && yes | tmuxinator start -n '' @ Name session @
                 '' -p '' @ Tmuxinator session @ '' --no-attach''] of
           CmdErr e \<Rightarrow> Some (Error (''error starting tmuxinator session: '' @ errorMessage e))
         | CmdOut out \<Rightarrow> None,
         tr @ [Run [''sh'', ''-c'',
                 ''cd '' @ Path session @ '' && yes | tmuxinator start -n '' @ Name session @
                 '' -p '' @ Tmuxinator session @ '' --no-attach'']])"
    if "Path session \<noteq> []" "Tmuxinator session \<noteq> []"
    using that
    by (simp add: createTmuxSession_def RunCmd_def tmuxinatorScript_def split: cmd_result.splits)
  have plain: "createTmuxSession w session tr =
        (case respond w tr [''tmux'', ''new-session'', ''-s'', Name session, ''-d'', ''-c'',
                            Path session] of
           CmdErr e \<Rightarrow> Some (Error (''error creating new tmux session: '' @ errorMessage e))
         | CmdOut out \<Rightarrow> None,
         tr @ [Run [''tmux'', ''new-session'', ''-s'', Name session, ''-d'', ''-c'',
                    Path session]])"
    if "Path session \<noteq> []" "Tmuxinator session = []"
    using that by (simp add: createTmuxSession_def RunCmd_def split: cmd_result.splits)
  have missing: "createTmuxSession w session tr =
        (Some (Error ''session path is missing, cannot create session''), tr)"
    if "Path session = []"
    using that by (simp add: createTmuxSession_def)
  have fatal: "connectRunE w [sessionName] tr0 = (Returned (Some err), tr3) \<and>
      main connectSessionCmd w [sessionName] tr0 =
        (Exited 1, tr3 @ [Stdout (errorMessage err @ [newline])])"
    if "getSessions w tr0 = (Ok catalog, tr1)"
      "find (\<lambda>s. Name s = sessionName) catalog = Some session"
      "getTmuxSessions w tr1 = (live, tr)"
      "\<not> list_ex (\<lambda>s. Name s = Name session) live"
      "createTmuxSession w session tr = (Some err, tr3)"
  proof -
    from connect_creation_fails [OF that]
    have run: "connectRunE w [sessionName] tr0 = (Returned (Some err), tr3)" .
    from run main_connect_error [OF run] show ?thesis
      by simp
  qed
  from template plain missing fatal show ?thesis
    by blast
qed

theorem session_creation_witness:
  "createTmuxSession createFailsWorld
     \<lparr>Name = ''/home/u/a_b'', Path = ''/home/u/a.b'', Type = [], Tmuxinator = ''dev''\<rparr> [] =
     (Some (Error ''error starting tmuxinator session: exit status 1''),
      [Run [''sh'', ''-c'',
            ''cd /home/u/a.b && yes | tmuxinator start -n /home/u/a_b -p dev --no-attach'']]) \<and>
   createTmuxSession sampleWorld
     \<lparr>Name = ''a_b_c'', Path = ''a.b.c'', Type = [], Tmuxinator = []\<rparr> [] =
     (None, [Run [''tmux'', ''new-session'', ''-s'', ''a_b_c'', ''-d'', ''-c'', ''a.b.c'']]) \<and>
   createTmuxSession sampleWorld
     \<lparr>Name = ''main'', Path = [], Type = [], Tmuxinator = []\<rparr> [] =
     (Some (Error ''session path is missing, cannot create session''), []) \<and>
   main connectSessionCmd createFailsWorld [''/home/u/a_b''] [] =
     (Exited 1,
      sampleQueries @
        [Run tmuxList,
         Run [''sh'', ''-c'',
              ''cd /home/u/a.b && yes | tmuxinator start -n /home/u/a_b -p dev --no-attach''],
         Stdout ''error starting tmuxinator session: exit status 1\<newline>''])"
proof -
  let ?dev = "\<lparr>Name = ''/home/u/a_b'', Path = ''/home/u/a.b'', Type = [], Tmuxinator = ''dev''\<rparr>"
  let ?script = "''cd /home/u/a.b && yes | tmuxinator start -n /home/u/a_b -p dev --no-attach''"
  have refused: "respond createFailsWorld tr [''sh'', ''-c'', ?script] =
                   CmdErr (Error ''exit status 1'')" for tr
    by (simp add: createFailsWorld_def sampleWorldWith_def tmuxList_def zoxideList_def)
  have accepted: "respond sampleWorld []
                    [''tmux'', ''new-session'', ''-s'', ''a_b_c'', ''-d'', ''-c'', ''a.b.c''] =
                   CmdOut []"
    by (simp add: sampleWorld_def sampleWorldWith_def sampleRespond_simps)
  have template: "createTmuxSession createFailsWorld ?dev tr =
     (Some (Error ''error starting tmuxinator session: exit status 1''),
      tr @ [Run [''sh'', ''-c'', ?script]])" for tr
    using session_creation [of ?dev createFailsWorld tr, THEN conjunct1] refused [of tr]
    by simp
  have plain: "createTmuxSession sampleWorld
     \<lparr>Name = ''a_b_c'', Path = ''a.b.c'', Type = [], Tmuxinator = []\<rparr> [] =
     (None, [Run [''tmux'', ''new-session'', ''-s'', ''a_b_c'', ''-d'', ''-c'', ''a.b.c'']])"
    using session_creation
            [of "\<lparr>Name = ''a_b_c'', Path = ''a.b.c'', Type = [], Tmuxinator = []\<rparr>"
                sampleWorld "[]", THEN conjunct2, THEN conjunct1] accepted
    by simp
  have missing: "createTmuxSession sampleWorld
     \<lparr>Name = ''main'', Path = [], Type = [], Tmuxinator = []\<rparr> [] =
     (Some (Error ''session path is missing, cannot create session''), [])"
    using session_creation
            [of "\<lparr>Name = ''main'', Path = [], Type = [], Tmuxinator = []\<rparr>" sampleWorld "[]",
             THEN conjunct2, THEN conjunct2, THEN conjunct1]
    by simp
  have found: "find (\<lambda>s. Name s = ''/home/u/a_b'') sampleCatalog = Some ?dev"
    by (simp add: sampleCatalog_def)
  have absent: "\<not> list_ex (\<lambda>s. Name s = Name ?dev) sampleLive"
    by (simp add: sampleLive_def)
  have fatal: "main connectSessionCmd createFailsWorld [''/home/u/a_b''] [] =
     (Exited 1,
      sampleQueries @
        [Run tmuxList, Run [''sh'', ''-c'', ?script],
         Stdout ''error starting tmuxinator session: exit status 1\<newline>''])"
    using session_creation
            [of ?dev createFailsWorld "sampleQueries @ [Run tmuxList]" "[]" sampleCatalog
                sampleQueries "''/home/u/a_b''" sampleLive
                "Error ''error starting tmuxinator session: exit status 1''"
                "(sampleQueries @ [Run tmuxList]) @ [Run [''sh'', ''-c'', ?script]]",
             THEN conjunct2, THEN conjunct2, THEN conjunct2]
      createFails_getSessions [of "[]"] found
      createFails_getTmuxSessions [of sampleQueries] absent
      template [of "sampleQueries @ [Run tmuxList]"]
    by (simp add: newline_def)
  from template [of "[]"] plain missing fatal show ?thesis
    by simp
qed

text \<open>
  \<^bold>\<open>C7.\<close> When the config loads, catalog construction succeeds whatever the listing
  tools do. Each of the four groups is what its own tool answered: the live group and the
  frequency group are the parsed output of their command or empty when it failed, and the
  worktree group is, root by root, the parsed output of that root's \<open>git\<close> command or
  nothing when it failed, the later roots being listed all the same. \<open>list\<close> exits with
  status 0 and prints every session of every group under its normalised name; with a failed
  multiplexer or frequency lister the catalog is the merge of the other groups.
\<close>

theorem failing_listers_degrade:
  assumes "loadConfig w tr = (Ok config, tr1)"
    and "live =
           (case respond w tr1 tmuxList of CmdErr e \<Rightarrow> []
            | CmdOut out \<Rightarrow>
                map (\<lambda>n. \<lparr>Name = n, Path = [], Type = [], Tmuxinator = []\<rparr>)
                  (trimmedLines out))"
    and "frequent =
           (case respond w (tr1 @ [Run tmuxList]) zoxideList of CmdErr e \<Rightarrow> []
            | CmdOut out \<Rightarrow>
                map (\<lambda>n. \<lparr>Name = n, Path = n, Type = [], Tmuxinator = []\<rparr>)
                  (trimmedLines out))"
    and "flat =
           map (\<lambda>c. \<lparr>Name = cPath c, Path = cPath c, Type = [], Tmuxinator = cTmuxinator c\<rparr>)
             (filter (\<lambda>c. cType c \<noteq> Some ''worktreeroot'') config)"
    and "roots = filter (\<lambda>c. cType c = Some ''worktreeroot'') config"
    and "worktree =
           concat (map (\<lambda>i.
               map (\<lambda>p. \<lparr>Name = p, Path = p, Type = ''worktreeroot'',
                          Tmuxinator = cTmuxinator (roots ! i)\<rparr>)
                 (case respond w
                         (tr1 @ [Run tmuxList, Run zoxideList] @
                          map (\<lambda>r. Run (gitList (cPath r))) (take i roots))
                         (gitList (cPath (roots ! i))) of
                    CmdErr e \<Rightarrow> []
                  | CmdOut out \<Rightarrow>
                      map (\<lambda>line. TrimSpace (TrimPrefix line ''worktree ''))
                        (filter (\<lambda>line. HasPrefix line ''worktree '') (Split out newline))))
             [0..<length roots])"
    and "queries =
           tr1 @ [Run tmuxList, Run zoxideList] @ map (\<lambda>r. Run (gitList (cPath r))) roots"
  shows "getSessions w tr = (Ok (mergeSessions live flat worktree frequent), queries) \<and>
         main listSessionsCmd w args tr =
           (Exited 0,
            queries @ map (\<lambda>s. Stdout (Name s @ [newline]))
                        (mergeSessions live flat worktree frequent)) \<and>
         (\<forall>s \<in> set (live @ flat @ worktree @ frequent).
            Stdout (ReplaceAll (Name s) (CHR ''.'') (CHR ''_'') @ [newline])
              \<in> set (snd (main listSessionsCmd w args tr))) \<and>
         (respond w tr1 tmuxList = CmdErr e1 \<longrightarrow>
            getTmuxSessions w tr1 = ([], tr1 @ [Run tmuxList]) \<and>
            getSessions w tr = (Ok (mergeSessions [] flat worktree frequent), queries)) \<and>
         (respond w (tr1 @ [Run tmuxList]) zoxideList = CmdErr e2 \<longrightarrow>
            getZoxideResults w (tr1 @ [Run tmuxList]) = ([], tr1 @ [Run tmuxList, Run zoxideList]) \<and>
            getSessions w tr = (Ok (mergeSessions live flat worktree []), queries)) \<and>
         (respond w t (gitList root) = CmdErr e3 \<longrightarrow>
            getGitWorktrees w root t = ([], t @ [Run (gitList root)]))"
proof -
  let ?tr3 = "tr1 @ [Run tmuxList, Run zoxideList]"
  have T: "getTmuxSessions w tr1 = (live, tr1 @ [Run tmuxList])"
    unfolding assms(2) by (rule getTmuxSessions_closed)
  have Z: "getZoxideResults w (tr1 @ [Run tmuxList]) = (frequent, ?tr3)"
    unfolding assms(3) using getZoxideResults_closed [of w "tr1 @ [Run tmuxList]"] by simp
  have "worktree = worktreeGroup w roots ?tr3"
    unfolding assms(6) worktreeGroup_indexed by simp
  then have L: "configLoop w config ([], []) ?tr3 = ((flat, worktree), queries)"
    unfolding assms(4,5,7) using configLoop_closed [of w config "[]" "[]" ?tr3] by simp
  have run: "getSessions w tr = (Ok (mergeSessions live flat worktree frequent), queries)"
    using assms(1) T Z L by (simp add: getSessions_def)
  have list: "main listSessionsCmd w args tr =
           (Exited 0,
            queries @ map (\<lambda>s. Stdout (Name s @ [newline]))
                        (mergeSessions live flat worktree frequent))"
    by (rule list_prints_catalog [OF run])
  have printed: "Stdout (ReplaceAll (Name s) (CHR ''.'') (CHR ''_'') @ [newline])
              \<in> set (snd (main listSessionsCmd w args tr))"
    if "s \<in> set (live @ flat @ worktree @ frequent)" for s
  proof -
    from catalog_has_name [OF that]
    obtain e where "e \<in> set (mergeSessions live flat worktree frequent)"
      "Name e = ReplaceAll (Name s) (CHR ''.'') (CHR ''_'')"
      by auto
    then have "Stdout (ReplaceAll (Name s) (CHR ''.'') (CHR ''_'') @ [newline])
                 \<in> (\<lambda>s. Stdout (Name s @ [newline])) `
                     set (mergeSessions live flat worktree frequent)"
      by force
    then show ?thesis
      unfolding list by simp
  qed
  have nolive: "getTmuxSessions w tr1 = ([], tr1 @ [Run tmuxList]) \<and>
            getSessions w tr = (Ok (mergeSessions [] flat worktree frequent), queries)"
    if "respond w tr1 tmuxList = CmdErr e1"
  proof -
    from that have "live = []"
      by (simp add: assms(2))
    with T run show ?thesis
      by simp
  qed
  have nofrequent: "getZoxideResults w (tr1 @ [Run tmuxList]) =
              ([], tr1 @ [Run tmuxList, Run zoxideList]) \<and>
            getSessions w tr = (Ok (mergeSessions live flat worktree []), queries)"
    if "respond w (tr1 @ [Run tmuxList]) zoxideList = CmdErr e2"
  proof -
    from that have "frequent = []"
      by (simp add: assms(3))
    with Z run show ?thesis
      by simp
  qed
  have noworktrees: "getGitWorktrees w root t = ([], t @ [Run (gitList root)])"
    if "respond w t (gitList root) = CmdErr e3"
    using that lister_failures(3) [of w t root e3] by (simp add: gitList_def)
  from run list printed nolive nofrequent noworktrees show ?thesis
    by blast
qed

theorem failing_listers_degrade_witness:
  "respond noIndexWorld [Run tmuxList] zoxideList = CmdErr (Error ''exit status 1'') \<and>
   main listSessionsCmd noIndexWorld [] [] =
     (Exited 0,
      sampleQueries @
        [Stdout ''main\<newline>'', Stdout ''a_b\<newline>'', Stdout ''/home/u/a_b\<newline>'',
         Stdout ''/repo\<newline>'', Stdout ''/repo/wt\<newline>'']) \<and>
   respond patchyWorld [] tmuxList = CmdErr (Error ''exit status 1'') \<and>
   respond patchyWorld [Run tmuxList, Run zoxideList] (gitList ''/r1'') =
     CmdErr (Error ''exit status 1'') \<and>
   main listSessionsCmd patchyWorld [] [] =
     (Exited 0,
      [Run tmuxList, Run zoxideList, Run (gitList ''/r1''), Run (gitList ''/r2''),
       Stdout ''/f\<newline>'', Stdout ''/r2\<newline>'', Stdout ''/z\<newline>''])"
proof -
  have noIndex: "main listSessionsCmd noIndexWorld [] [] =
     (Exited 0,
      sampleQueries @
        [Stdout ''main\<newline>'', Stdout ''a_b\<newline>'', Stdout ''/home/u/a_b\<newline>'',
         Stdout ''/repo\<newline>'', Stdout ''/repo/wt\<newline>''])"
    using failing_listers_degrade
            [OF noIndex_loadConfig refl refl refl refl refl refl, of "[]" "[]",
             THEN conjunct2, THEN conjunct1]
    by (simp add: noIndex_respond noIndex_respond(3) [unfolded gitList_def] gitList_def
        string_fun_defs sampleExpanded_def mergeSessions_spec spec_catalog_def
        spec_normalize_def sampleQueries_def)
  have patchy: "main listSessionsCmd patchyWorld [] [] =
     (Exited 0,
      [Run tmuxList, Run zoxideList, Run (gitList ''/r1''), Run (gitList ''/r2''),
       Stdout ''/f\<newline>'', Stdout ''/r2\<newline>'', Stdout ''/z\<newline>''])"
    using failing_listers_degrade
            [OF patchy_loadConfig refl refl refl refl refl refl, of "[]" "[]",
             THEN conjunct2, THEN conjunct1]
    by (simp add: patchy_respond patchy_respond(3,4) [unfolded gitList_def] gitList_def
        string_fun_defs patchyConfig_def mergeSessions_spec spec_catalog_def
        spec_normalize_def)
  from noIndex patchy show ?thesis
    by (simp add: noIndex_respond patchy_respond)
qed

text \<open>
  \<^bold>\<open>C8.\<close> The claim is that a failing listing tool yields an empty list \<^emph>\<open>and\<close> a
  diagnostic message. The first half holds; the second does not: in a world where the
  multiplexer and the frequency index both fail, \<open>list\<close> runs the two tools, writes nothing
  and exits with status 0.
\<close>

theorem listing_failure_with_diagnostic_counterexample:
  "respond silentWorld [] tmuxList = CmdErr (Error ''exit status 1'') \<and>
   respond silentWorld [Run tmuxList] zoxideList = CmdErr (Error ''exit status 1'') \<and>
   getTmuxSessions silentWorld [] = ([], [Run tmuxList]) \<and>
   getZoxideResults silentWorld [Run tmuxList] = ([], [Run tmuxList, Run zoxideList]) \<and>
   main listSessionsCmd silentWorld [] [] = (Exited 0, [Run tmuxList, Run zoxideList]) \<and>
   filter isMessage (snd (main listSessionsCmd silentWorld [] [])) = []"
proof -
  have failing: "respond silentWorld tr argv = CmdErr (Error ''exit status 1'')" for tr argv
    by (simp add: silentWorld_def brokenWorld_def sampleWorldWith_def)
  have list: "main listSessionsCmd silentWorld [] [] = (Exited 0, [Run tmuxList, Run zoxideList])"
    using list_prints_catalog [OF silent_getSessions [of "[]"], of "[]"] by simp
  have "getTmuxSessions silentWorld [] = ([], [Run tmuxList])"
    using lister_failures(1) [of silentWorld "[]"] failing by simp
  moreover have "getZoxideResults silentWorld [Run tmuxList] = ([], [Run tmuxList, Run zoxideList])"
    using lister_failures(2) [of silentWorld "[Run tmuxList]"] failing by simp
  ultimately show ?thesis
    using list failing by (simp add: isMessage_simps)
qed

text \<open>
  \<^bold>\<open>C8, amended.\<close> When an external listing tool fails, its lister returns the empty list
  and does nothing but the attempt to run the tool; the only message that catalog
  construction ever writes is the notice that there is no config file.
\<close>

theorem listing_failure_degrades_silently:
  "(respond w tr tmuxList = CmdErr e \<longrightarrow> getTmuxSessions w tr = ([], tr @ [Run tmuxList])) \<and>
   (respond w tr zoxideList = CmdErr e \<longrightarrow>
      getZoxideResults w tr = ([], tr @ [Run zoxideList])) \<and>
   (respond w tr (gitList root) = CmdErr e \<longrightarrow>
      getGitWorktrees w root tr = ([], tr @ [Run (gitList root)])) \<and>
   (\<exists>es. snd (getSessions w tr) = tr @ es \<and>
      (filter isMessage es = [] \<or>
       filter isMessage es = [Stdout (''No config file was found'' @ [newline])]))"
  using lister_failures(1) [of w tr e] lister_failures(2) [of w tr e]
    lister_failures(3) [of w tr root e] getSessions_messages [of w tr]
  by (simp add: tmuxList_def zoxideList_def gitList_def)

theorem listing_failure_degrades_silently_witness:
  "respond brokenWorld [] tmuxList = CmdErr (Error ''exit status 1'') \<and>
   getTmuxSessions brokenWorld [] = ([], [Run tmuxList]) \<and>
   getZoxideResults brokenWorld [] = ([], [Run zoxideList]) \<and>
   getGitWorktrees brokenWorld ''/repo'' [] = ([], [Run (gitList ''/repo'')])"
proof -
  have failing: "respond brokenWorld tr argv = CmdErr (Error ''exit status 1'')" for tr argv
    by (simp add: brokenWorld_def sampleWorldWith_def)
  from listing_failure_degrades_silently [of brokenWorld "[]" "Error ''exit status 1''" "''/repo''"]
  show ?thesis
    by (simp add: failing)
qed

text \<open>
  \<^bold>\<open>C9.\<close> The names of a catalog returned by \<open>getSessions\<close> are pairwise distinct and
  none contains a \<open>.\<close>; so \<open>connect\<close> with a target name that contains a \<open>.\<close> ends with the
  error \<open>session <name> not found\<close> and exit status 1. The last conjunct covers the runs in
  which no catalog is returned: \<open>connect\<close> with such a name never gets further than the
  lookup, whatever the world is.
\<close>

theorem catalog_names_distinct_without_dots:
  "(getSessions w tr = (Ok catalog, tr') \<longrightarrow>
      distinct (map Name catalog) \<and>
      (\<forall>s \<in> set catalog. CHR ''.'' \<notin> set (Name s)) \<and>
      (CHR ''.'' \<in> set sessionName \<longrightarrow>
         connectRunE w [sessionName] tr =
           (Returned (Some (Error (''session '' @ sessionName @ '' not found''))), tr') \<and>
         main connectSessionCmd w [sessionName] tr =
           (Exited 1, tr' @ [Stdout (''session '' @ sessionName @ '' not found'' @ [newline])]))) \<and>
   (CHR ''.'' \<in> set sessionName \<longrightarrow>
      connectRunE w [sessionName] tr =
        (case getSessions w tr of
           (Ok sessions, tr1) \<Rightarrow>
             (Returned (Some (Error (''session '' @ sessionName @ '' not found''))), tr1)
         | (Err e, tr1) \<Rightarrow> (Returned (Some e), tr1)
         | (Panic e, tr1) \<Rightarrow> (Panicked e, tr1)))"
proof -
  have built: "distinct (map Name catalog) \<and>
      (\<forall>s \<in> set catalog. CHR ''.'' \<notin> set (Name s)) \<and>
      (CHR ''.'' \<in> set sessionName \<longrightarrow>
         connectRunE w [sessionName] tr =
           (Returned (Some (Error (''session '' @ sessionName @ '' not found''))), tr') \<and>
         main connectSessionCmd w [sessionName] tr =
           (Exited 1, tr' @ [Stdout (''session '' @ sessionName @ '' not found'' @ [newline])]))"
    if run: "getSessions w tr = (Ok catalog, tr')" for catalog tr'
  proof -
    from run obtain T F W Z where catalog: "catalog = spec_catalog T F W Z"
      by (rule getSessions_OkD)
    have distinct: "distinct (map Name catalog)"
      unfolding catalog spec_catalog_def by (rule spec_dedupe_distinct)
    have dotless: "\<forall>s \<in> set catalog. CHR ''.'' \<notin> set (Name s)"
      unfolding catalog using catalog_no_dot by blast
    have connect: "connectRunE w [sessionName] tr =
              (Returned (Some (Error (''session '' @ sessionName @ '' not found''))), tr') \<and>
            main connectSessionCmd w [sessionName] tr =
              (Exited 1, tr' @ [Stdout (''session '' @ sessionName @ '' not found'' @ [newline])])"
      if "CHR ''.'' \<in> set sessionName"
    proof -
      from that dotless have "sessionName \<notin> Name ` set catalog"
        by auto
      from connect_not_found [OF run this]
      have failed: "connectRunE w [sessionName] tr =
              (Returned (Some (Error (''session '' @ sessionName @ '' not found''))), tr')" .
      from main_connect_error [OF failed] failed show ?thesis
        by simp
    qed
    from distinct dotless connect show ?thesis
      by blast
  qed
  have always: "connectRunE w [sessionName] tr =
        (case getSessions w tr of
           (Ok sessions, tr1) \<Rightarrow>
             (Returned (Some (Error (''session '' @ sessionName @ '' not found''))), tr1)
         | (Err e, tr1) \<Rightarrow> (Returned (Some e), tr1)
         | (Panic e, tr1) \<Rightarrow> (Panicked e, tr1))"
    if dotted: "CHR ''.'' \<in> set sessionName"
  proof (cases "getSessions w tr")
    case (Pair r tr1)
    show ?thesis
    proof (cases r)
      case (Ok sessions)
      with Pair built [of sessions tr1] dotted show ?thesis
        by simp
    next
      case (Err e)
      with Pair show ?thesis
        by (simp add: connectRunE_def)
    next
      case (Panic e)
      with Pair show ?thesis
        by (simp add: connectRunE_def)
    qed
  qed
  from built [of catalog tr'] always show ?thesis
    by blast
qed

theorem catalog_names_distinct_without_dots_witness:
  "distinct (map Name sampleCatalog) \<and>
   list_all (\<lambda>s. CHR ''.'' \<notin> set (Name s)) sampleCatalog \<and>
   CHR ''.'' \<in> set ''a.b'' \<and>
   main connectSessionCmd sampleWorld [''a.b''] [] =
     (Exited 1, sampleQueries @ [Stdout ''session a.b not found\<newline>''])"
  using catalog_names_distinct_without_dots
          [of sampleWorld "[]" sampleCatalog sampleQueries "''a.b''", THEN conjunct1]
    sample_getSessions [of "[]"]
  by (simp add: newline_def list_all_iff)

text \<open>
  \<^bold>\<open>C10.\<close> \<open>connect\<close> without arguments returns no error and the process exits with
  status 0; nothing happens (the trace is unchanged: no catalog is built, no command is run),
  although the usage line of the command names a \<open><session>\<close> argument and its argument
  check accepts the empty list.
\<close>

theorem connect_without_arguments:
  "connectRunE w [] tr = (Returned None, tr) \<and>
   main connectSessionCmd w [] tr = (Exited 0, tr) \<and>
   Use connectSessionCmd = ''connect <session>'' \<and>
   Args connectSessionCmd [] = None"
  by (simp add: connectRunE_def main_def Execute_def connectSessionCmd_def MaximumNArgs_def)

theorem connect_without_arguments_witness:
  "connectRunE sampleWorld [] [] = (Returned None, []) \<and>
   main connectSessionCmd sampleWorld [] [] = (Exited 0, [])"
  using connect_without_arguments [of sampleWorld "[]"]
  by simp

end
